theory Spec2Isabelle
  imports Complex_Main "HOL-Library.Sublist"
begin

section \<open>Python values used by the attendance core\<close>

text \<open>
  Exceptions are values: a function of the source that can raise returns
  \<open>py_exception + 'a\<close>, with \<open>Inl\<close> for the exception that reaches the caller.
\<close>

datatype py_exception =
    KeyError string
  | ValueError string
  | IndexError string
  | AttributeError string
  | FileNotFoundError string
  | LibraryError string

subsection \<open>Strings\<close>

text \<open>
  A \<open>string\<close> is a list of bytes. The three pictographs of the messages are written as
  their UTF-8 bytes: U+274C (cross mark), U+2705 (check mark), U+23F3 (hourglass).
\<close>

definition cross_mark :: string where
  "cross_mark = [CHR 0xE2, CHR 0x9D, CHR 0x8C]"

definition check_mark :: string where
  "check_mark = [CHR 0xE2, CHR 0x9C, CHR 0x85]"

definition hourglass :: string where
  "hourglass = [CHR 0xE2, CHR 0x8F, CHR 0xB3]"

definition digit_char :: "nat \<Rightarrow> char" where
  "digit_char n = ''0123456789'' ! (n mod 10)"

fun str_nat :: "nat \<Rightarrow> string" where
  "str_nat n = (if n < 10 then [digit_char n] else str_nat (n div 10) @ [digit_char n])"

declare str_nat.simps [simp del]

definition str_int :: "int \<Rightarrow> string" where
  \<comment> \<open>\<open>str(i)\<close> of a Python int\<close>
  "str_int i = (if i < 0 then CHR ''-'' # str_nat (nat (- i)) else str_nat (nat i))"

definition upper_char :: "char \<Rightarrow> char" where
  "upper_char c =
     (case map_of (zip ''abcdefghijklmnopqrstuvwxyz'' ''ABCDEFGHIJKLMNOPQRSTUVWXYZ'') c of
        None \<Rightarrow> c
      | Some u \<Rightarrow> u)"

definition upper :: "string \<Rightarrow> string" where
  \<comment> \<open>\<open>str.upper()\<close> on ASCII text\<close>
  "upper s = map upper_char s"

definition py_int :: "rat \<Rightarrow> int" where
  \<comment> \<open>\<open>int(x)\<close> of a Python float: truncation towards zero\<close>
  "py_int x = (if 0 \<le> x then \<lfloor>x\<rfloor> else \<lceil>x\<rceil>)"

subsection \<open>Dates and times\<close>

text \<open>
  A \<open>datetime\<close> is the number of microseconds since the first instant of the calendar.
  The text that \<open>strftime("%Y-%m-%d")\<close> produces is represented by the day number, and
  the text that \<open>strftime("%H:%M:%S")\<close> produces by the second of the day; \<open>hms\<close>
  prints the latter where a message quotes it. Every \<open>datetime.now()\<close> read during one
  call of the manager returns the same instant \<open>now\<close>, which the call takes as argument.
  A Python float that holds a duration is represented by the exact rational number of
  seconds or minutes: durations are whole microseconds below a day's length, where the
  comparisons with 60 and the truncations of the source agree with the exact ones.
\<close>

type_synonym datetime = int
type_synonym date_str = int
type_synonym time_str = nat

definition usec_per_day :: int where
  "usec_per_day = 86400000000"

definition strftime_date :: "datetime \<Rightarrow> date_str" where
  "strftime_date t = t div usec_per_day"

definition strftime_time :: "datetime \<Rightarrow> time_str" where
  "strftime_time t = nat ((t mod usec_per_day) div 1000000)"

definition strptime :: "date_str \<Rightarrow> time_str \<Rightarrow> datetime" where
  \<comment> \<open>\<open>datetime.strptime(f"{date} {time}", "%Y-%m-%d %H:%M:%S")\<close>\<close>
  "strptime d t = d * usec_per_day + int t * 1000000"

definition total_seconds :: "int \<Rightarrow> rat" where
  \<comment> \<open>\<open>timedelta.total_seconds()\<close> of a difference of two datetimes\<close>
  "total_seconds delta = of_int delta / 1000000"

definition two_digits :: "nat \<Rightarrow> string" where
  "two_digits n = [digit_char (n div 10), digit_char n]"

definition hms :: "time_str \<Rightarrow> string" where
  "hms t = two_digits (t div 3600) @ '':'' @ two_digits (t div 60 mod 60) @ '':''
             @ two_digits (t mod 60)"

definition str_time_opt :: "time_str option \<Rightarrow> string" where
  \<comment> \<open>a time cell inside an f-string; \<open>None\<close> prints as the word\<close>
  "str_time_opt c = (case c of None \<Rightarrow> ''None'' | Some t \<Rightarrow> hms t)"

subsection \<open>Binary floating point, where the source rounds\<close>

text \<open>
  \<open>binary64 x\<close> is the IEEE double nearest to the rational \<open>x\<close> (ties to the even
  significand), for magnitudes in the normal range: what Python's \<open>/\<close> and a float
  literal produce. \<open>py_round2 x\<close> is \<open>round(x, 2)\<close> on a float: the exact binary value
  is rounded to two decimals, ties to even, and the decimal is read back as a double.
\<close>

fun bit_length :: "nat \<Rightarrow> nat" where
  "bit_length n = (if n = 0 then 0 else Suc (bit_length (n div 2)))"

declare bit_length.simps [simp del]

definition ilog2 :: "rat \<Rightarrow> int" where
  \<comment> \<open>for \<open>x > 0\<close>: the \<open>e\<close> with \<open>2 powi e \<le> x < 2 powi (e + 1)\<close>\<close>
  "ilog2 x =
     (let (p, q) = quotient_of x;
          d = int (bit_length (nat p)) - int (bit_length (nat q))
      in if 2 powi d \<le> x then d else d - 1)"

definition round_half_even :: "rat \<Rightarrow> int" where
  "round_half_even x =
     (let f = \<lfloor>x\<rfloor>; d = x - of_int f
      in if d < 1 / 2 then f else if 1 / 2 < d then f + 1 else if even f then f else f + 1)"

definition binary64 :: "rat \<Rightarrow> rat" where
  "binary64 x =
     (if x = 0 then 0
      else let e = ilog2 \<bar>x\<bar> - 52 in of_int (round_half_even (x / 2 powi e)) * 2 powi e)"

definition py_round2 :: "rat \<Rightarrow> rat" where
  "py_round2 x = binary64 (of_int (round_half_even (x * 100)) / 100)"

section \<open>The attendance manager\<close>

subsection \<open>State\<close>

record employee =
  name :: string
  department :: string
  position :: string
  registration_date :: string

text \<open>
  One row of a daily ledger. \<open>Check_Out = None\<close> is the empty cell. A ledger file is the
  list of its rows, in file order, with every cell of the four free-text columns as the
  text that was written: a \<open>string row\<close>. The index label of a row is its position.

  Reading a ledger file infers a type for each column. A cell of a free-text column comes
  back either as the string that was written (\<open>Str\<close>) or as a value of another type, a
  number, a truth value or a missing value (\<open>Retyped\<close>, with the text that writing the
  value back produces): a \<open>cell row\<close>. A comparison of a cell with a string holds for
  \<open>Str\<close> of that string only. An assignment to a cell stores the value assigned,
  whatever the column held before.
\<close>

datatype cell = Str string | Retyped string

definition text_of :: "cell \<Rightarrow> string" where
  \<comment> \<open>what \<open>to_csv\<close> writes for a cell\<close>
  "text_of c = (case c of Str s \<Rightarrow> s | Retyped s \<Rightarrow> s)"

record 'c row =
  Employee_ID :: 'c
  Name :: 'c
  Department :: 'c
  Position :: 'c
  Date :: date_str
  Check_In :: time_str
  Check_Out :: "time_str option"
  Total_Hours :: rat
  Status :: string

text \<open>
  \<open>employees\<close> keeps the insertion order of the dictionary, which
  \<open>get_employee_by_name\<close> iterates. \<open>files\<close> is the attendance directory: the ledger of
  each date that has a file. The file system does not fail. \<open>read_column\<close> is the type
  inference of the CSV reader that the manager runs with, which no operation changes:
  \<open>read_column m column text\<close> is the cell read for \<open>text\<close> in a column whose written
  cells are \<open>column\<close>.
\<close>

record manager =
  employees :: "(string \<times> employee) list"
  last_processed :: "string \<rightharpoonup> datetime"
  files :: "date_str \<rightharpoonup> string row list"
  read_column :: "string list \<Rightarrow> string \<Rightarrow> cell"

datatype status = SUCCESS | INFO | ERROR

record result =
  status :: status
  message :: string

record current_status =
  is_checked_in :: bool
  check_in_time :: "time_str option"
  elapsed_minutes :: rat
  record_index :: "nat option"
  has_incomplete_record :: bool
  already_checked_in_today :: bool
  last_check_out :: "time_str option"

definition COOLDOWN_SECONDS :: int where
  "COOLDOWN_SECONDS = 60"

definition MIN_CHECKOUT_MINUTES :: int where
  "MIN_CHECKOUT_MINUTES = 60"

subsection \<open>Employee lookup\<close>

definition get_employee_details :: "manager \<Rightarrow> string \<Rightarrow> employee option" where
  \<comment> \<open>\<open>None\<close> is the empty dictionary the source returns for an unknown id\<close>
  "get_employee_details m emp_id = map_of (employees m) emp_id"

definition get_employee_by_name :: "manager \<Rightarrow> string \<Rightarrow> (string \<times> employee) option" where
  "get_employee_by_name m n = find (\<lambda>(emp_id, details). name details = n) (employees m)"

subsection \<open>Reading and writing a ledger\<close>

definition read_csv :: "manager \<Rightarrow> string row list \<Rightarrow> cell row list" where
  \<comment> \<open>\<open>pd.read_csv(file_path)\<close>\<close>
  "read_csv m rows =
     map (\<lambda>r. \<lparr>Employee_ID = read_column m (map Employee_ID rows) (Employee_ID r),
                Name = read_column m (map Name rows) (Name r),
                Department = read_column m (map Department rows) (Department r),
                Position = read_column m (map Position rows) (Position r),
                Date = Date r, Check_In = Check_In r, Check_Out = Check_Out r,
                Total_Hours = Total_Hours r, Status = Status r\<rparr>) rows"

definition to_csv :: "cell row list \<Rightarrow> string row list" where
  \<comment> \<open>\<open>df.to_csv(file_path, index=False)\<close>\<close>
  "to_csv df =
     map (\<lambda>r. \<lparr>Employee_ID = text_of (Employee_ID r), Name = text_of (Name r),
                Department = text_of (Department r), Position = text_of (Position r),
                Date = Date r, Check_In = Check_In r, Check_Out = Check_Out r,
                Total_Hours = Total_Hours r, Status = Status r\<rparr>) df"

subsection \<open>Status of an employee today\<close>

definition ensure_attendance_file :: "manager \<Rightarrow> date_str \<Rightarrow> manager \<times> cell row list" where
  "ensure_attendance_file m date =
     (case files m date of
        Some rows \<Rightarrow> (m, read_csv m rows)
      | None \<Rightarrow> (m\<lparr>files := (files m)(date \<mapsto> [])\<rparr>, []))"

definition calculate_elapsed_minutes :: "date_str \<Rightarrow> time_str \<Rightarrow> datetime \<Rightarrow> rat" where
  "calculate_elapsed_minutes date t now = total_seconds (now - strptime date t) / 60"

definition no_record_status :: current_status where
  "no_record_status =
     \<lparr>is_checked_in = False, check_in_time = None, elapsed_minutes = 0,
      record_index = None, has_incomplete_record = False,
      already_checked_in_today = False, last_check_out = None\<rparr>"

definition get_current_status :: "manager \<Rightarrow> string \<Rightarrow> datetime \<Rightarrow> manager \<times> current_status" where
  "get_current_status m emp_id now =
     (let today = strftime_date now;
          (m', df) = ensure_attendance_file m today;
          emp_records = filter (\<lambda>(i, r). Employee_ID r = Str emp_id) (enumerate 0 df)
      in if emp_records \<noteq> [] then
           (let completed_records = filter (\<lambda>(i, r). Check_Out r \<noteq> None) emp_records
            in if completed_records \<noteq> [] then
                 (m', \<lparr>is_checked_in = False, check_in_time = None, elapsed_minutes = 0,
                       record_index = None, has_incomplete_record = False,
                       already_checked_in_today = True,
                       last_check_out = Check_Out (snd (last completed_records))\<rparr>)
               else
                 (let (idx, latest_record) = last emp_records
                  in if Check_Out latest_record = None then
                       (m', \<lparr>is_checked_in = True,
                             check_in_time = Some (Check_In latest_record),
                             elapsed_minutes =
                               calculate_elapsed_minutes today (Check_In latest_record) now,
                             record_index = Some idx, has_incomplete_record = True,
                             already_checked_in_today = False, last_check_out = None\<rparr>)
                     else (m', no_record_status)))
         else (m', no_record_status))"

subsection \<open>Check-in and check-out\<close>

definition process_check_in :: "manager \<Rightarrow> string \<Rightarrow> datetime \<Rightarrow> manager \<times> (py_exception + result)" where
  "process_check_in m emp_id now =
     (let date = strftime_date now;
          time = strftime_time now;
          emp_details = get_employee_details m emp_id;
          (m1, st) = get_current_status m emp_id now
      in if is_checked_in st \<or> has_incomplete_record st then
           (case emp_details of
              None \<Rightarrow> (m1, Inl (KeyError ''name''))
            | Some e \<Rightarrow>
                (m1, Inr \<lparr>status = ERROR,
                          message = cross_mark @ '' '' @ name e
                            @ '' must check out from previous session first''\<rparr>))
         else
           (case emp_details of
              None \<Rightarrow>
                (m1, Inr \<lparr>status = ERROR,
                          message = cross_mark @ '' Failed to record attendance: ''
                            @ [CHR 0x27] @ ''name'' @ [CHR 0x27]\<rparr>)
            | Some e \<Rightarrow>
                (let df = (case files m1 date of
                             Some rows \<Rightarrow> read_csv m1 rows
                           | None \<Rightarrow> []);
                     new_record =
                       \<lparr>Employee_ID = Str emp_id, Name = Str (name e),
                        Department = Str (department e), Position = Str (position e),
                        Date = date, Check_In = time,
                        Check_Out = None, Total_Hours = 0, Status = ''Present''\<rparr>
                 in (m1\<lparr>files := (files m1)(date \<mapsto> to_csv (df @ [new_record]))\<rparr>,
                     Inr \<lparr>status = SUCCESS,
                          message = check_mark @ '' Successfully checked in '' @ name e\<rparr>))))"

definition process_check_out :: "manager \<Rightarrow> string \<Rightarrow> datetime \<Rightarrow> manager \<times> (py_exception + result)" where
  \<comment> \<open>the last branch of the inner case is not reached: \<open>is_checked_in\<close> is set only
      together with \<open>record_index\<close> and \<open>check_in_time\<close>, after the ledger file was ensured\<close>
  "process_check_out m emp_id now =
     (let date = strftime_date now;
          time = strftime_time now;
          emp_details = get_employee_details m emp_id;
          (m1, st) = get_current_status m emp_id now
      in if \<not> is_checked_in st then
           (case emp_details of
              None \<Rightarrow> (m1, Inl (KeyError ''name''))
            | Some e \<Rightarrow>
                (m1, Inr \<lparr>status = ERROR, message = name e @ '' is not checked in''\<rparr>))
         else if elapsed_minutes st < of_int MIN_CHECKOUT_MINUTES then
           (m1, Inr \<lparr>status = ERROR,
                     message = ''Cannot check out before '' @ str_int MIN_CHECKOUT_MINUTES
                       @ '' minutes. Time elapsed: ''
                       @ str_int (py_int (elapsed_minutes st)) @ '' minutes''\<rparr>)
         else
           (case (files m1 date, record_index st, check_in_time st) of
              (Some rows, Some idx, Some cin) \<Rightarrow>
                (let df = read_csv m1 rows;
                     check_in_time = strptime date cin;
                     check_out_time = strptime date time;
                     total_hours =
                       binary64 (total_seconds (check_out_time - check_in_time) / 3600);
                     df' = df[idx := (df ! idx)\<lparr>Check_Out := Some time,
                                                Total_Hours := py_round2 total_hours\<rparr>];
                     m2 = m1\<lparr>files := (files m1)(date \<mapsto> to_csv df')\<rparr>
                 in case emp_details of
                      None \<Rightarrow> (m2, Inl (KeyError ''name''))
                    | Some e \<Rightarrow>
                        (m2, Inr \<lparr>status = SUCCESS,
                                  message = ''Successfully checked out '' @ name e
                                    @ '' after '' @ str_int (py_int (elapsed_minutes st))
                                    @ '' minutes''\<rparr>))
            | _ \<Rightarrow> (m1, Inl (LibraryError ''attendance file''))))"

definition manual_attendance :: "manager \<Rightarrow> string \<Rightarrow> string \<Rightarrow> datetime \<Rightarrow> manager \<times> (py_exception + result)" where
  "manual_attendance m emp_id action now =
     (if map_of (employees m) emp_id = None then
        (m, Inr \<lparr>status = ERROR, message = ''Employee not found''\<rparr>)
      else if action = ''CHECK_IN'' then process_check_in m emp_id now
      else if action = ''CHECK_OUT'' then process_check_out m emp_id now
      else (m, Inr \<lparr>status = ERROR, message = ''Invalid action''\<rparr>))"

subsection \<open>Attendance from recognised names\<close>

text \<open>
  \<open>process_name\<close> is one turn of the loop of \<open>process_attendance\<close> over the recognised
  names, with the mode already in upper case: it returns the record appended to
  \<open>processed_records\<close>, if any. \<open>set_last_processed\<close> is the assignment
  \<open>self.last_processed[emp_id] = current_time\<close>, made after a \<open>SUCCESS\<close> only.
\<close>

definition set_last_processed :: "manager \<Rightarrow> string \<Rightarrow> datetime \<Rightarrow> py_exception + result \<Rightarrow> manager" where
  "set_last_processed m emp_id current_time r =
     (case r of
        Inr res \<Rightarrow>
          (if status res = SUCCESS
           then m\<lparr>last_processed := (last_processed m)(emp_id \<mapsto> current_time)\<rparr> else m)
      | Inl e \<Rightarrow> m)"

definition in_cooldown :: "manager \<Rightarrow> string \<Rightarrow> datetime \<Rightarrow> rat option" where
  \<comment> \<open>\<open>time_since_last\<close>, when the employee is in \<open>last_processed\<close> and it is below the cooldown\<close>
  "in_cooldown m emp_id current_time =
     (case last_processed m emp_id of
        None \<Rightarrow> None
      | Some t \<Rightarrow>
          (let time_since_last = total_seconds (current_time - t)
           in if time_since_last < of_int COOLDOWN_SECONDS then Some time_since_last else None))"

definition process_name :: "manager \<Rightarrow> string \<Rightarrow> string \<Rightarrow> datetime \<Rightarrow> manager \<times> (py_exception + result option)" where
  "process_name m mode n current_time =
     (if n = ''Unknown'' then (m, Inr None)
      else case get_employee_by_name m n of
        None \<Rightarrow> (m, Inr None)
      | Some (emp_id, details) \<Rightarrow>
          (case in_cooldown m emp_id current_time of
             Some time_since_last \<Rightarrow>
               (m, Inr (Some \<lparr>status = ERROR,
                               message = hourglass @ '' Please wait ''
                                 @ str_int (py_int (of_int COOLDOWN_SECONDS - time_since_last))
                                 @ '' seconds before trying again''\<rparr>))
           | None \<Rightarrow>
               (let (m1, st) = get_current_status m emp_id current_time
                in if mode = ''CHECK_IN'' \<or> mode = ''CHECK IN'' then
                     (if already_checked_in_today st then
                        (m1, Inr (Some \<lparr>status = ERROR,
                                        message = cross_mark @ '' '' @ name details
                                          @ '' has already completed attendance for today (Last check-out: ''
                                          @ str_time_opt (last_check_out st) @ '')''\<rparr>))
                      else if is_checked_in st then
                        (m1, Inr (Some \<lparr>status = INFO,
                                        message = check_mark @ '' '' @ name details
                                          @ '' already checked in at ''
                                          @ str_time_opt (check_in_time st)\<rparr>))
                      else if \<not> has_incomplete_record st then
                        (let (m2, r) = process_check_in m1 emp_id current_time
                         in (set_last_processed m2 emp_id current_time r, map_sum id Some r))
                      else
                        (m1, Inr (Some \<lparr>status = ERROR,
                                        message = cross_mark @ '' '' @ name details
                                          @ '' must check out from previous session first''\<rparr>)))
                   else if mode = ''CHECK_OUT'' \<or> mode = ''CHECK OUT'' then
                     (if already_checked_in_today st then
                        (m1, Inr (Some \<lparr>status = ERROR,
                                        message = cross_mark @ '' '' @ name details
                                          @ '' has already completed attendance for today''\<rparr>))
                      else if \<not> is_checked_in st then
                        (m1, Inr (Some \<lparr>status = ERROR,
                                        message = cross_mark @ '' '' @ name details
                                          @ '' has not checked in today''\<rparr>))
                      else if elapsed_minutes st < of_int MIN_CHECKOUT_MINUTES then
                        (m1, Inr (Some \<lparr>status = ERROR,
                                        message = hourglass @ '' Must wait ''
                                          @ str_int (MIN_CHECKOUT_MINUTES - py_int (elapsed_minutes st))
                                          @ '' minutes before check-out (Minimum ''
                                          @ str_int MIN_CHECKOUT_MINUTES
                                          @ '' minutes required)''\<rparr>))
                      else
                        (let (m2, r) = process_check_out m1 emp_id current_time
                         in (set_last_processed m2 emp_id current_time r, map_sum id Some r)))
                   else
                     (m1, Inr (Some \<lparr>status = ERROR,
                                     message = cross_mark @ '' Invalid mode: '' @ mode
                                       @ ''. Must be CHECK_IN or CHECK_OUT''\<rparr>)))))"

fun process_names :: "manager \<Rightarrow> string \<Rightarrow> string list \<Rightarrow> datetime \<Rightarrow> manager \<times> (py_exception + result list)" where
  "process_names m mode [] current_time = (m, Inr [])"
| "process_names m mode (n # ns) current_time =
     (case process_name m mode n current_time of
        (m1, Inl e) \<Rightarrow> (m1, Inl e)
      | (m1, Inr r) \<Rightarrow>
          (case process_names m1 mode ns current_time of
             (m2, Inl e) \<Rightarrow> (m2, Inl e)
           | (m2, Inr rs) \<Rightarrow> (m2, Inr ((case r of None \<Rightarrow> [] | Some x \<Rightarrow> [x]) @ rs))))"

definition process_attendance :: "manager \<Rightarrow> string list \<Rightarrow> string \<Rightarrow> datetime \<Rightarrow> manager \<times> (py_exception + result list)" where
  "process_attendance m names mode now = process_names m (upper mode) names now"

subsection \<open>Attributes of the class\<close>

text \<open>
  The names that an \<open>AttendanceManager\<close> object has: the methods that the class body
  defines and the attributes that \<open>__init__\<close> assigns. \<open>getattr_AttendanceManager\<close> is
  the attribute lookup that a call \<open>attendance_manager.f(...)\<close> starts with.
\<close>

definition AttendanceManager_attributes :: "string list" where
  "AttendanceManager_attributes =
     [''__init__'', ''_save_employee_data'', ''add_employee'', ''get_employee_details'',
      ''get_employee_by_name'', ''process_attendance'', ''_process_check_in'',
      ''_process_check_out'', ''manual_attendance'', ''get_today_present_employees'',
      ''get_today_attendance'', ''get_attendance_by_date'', ''get_all_attendance'',
      ''get_department_report'', ''get_employee_report'', ''remove_employee'',
      ''get_all_employees'', ''get_active_sessions'', ''_ensure_attendance_file'',
      ''get_current_status'', ''_calculate_elapsed_minutes'',
      ''attendance_dir'', ''employee_file'', ''employees'', ''lock'', ''last_processed'',
      ''COOLDOWN_SECONDS'', ''MIN_CHECKOUT_MINUTES'']"

definition getattr_AttendanceManager :: "string \<Rightarrow> py_exception + string" where
  "getattr_AttendanceManager a =
     (if a \<in> set AttendanceManager_attributes then Inr a
      else Inl (AttributeError
        ([CHR 0x27] @ ''AttendanceManager'' @ [CHR 0x27] @ '' object has no attribute ''
           @ [CHR 0x27] @ a @ [CHR 0x27])))"

section \<open>Face utilities\<close>

text \<open>
  An array is its shape, its element type and its content, which the model does not look
  into. The image libraries are parameters: a record of the functions the source calls.
  A library call that can raise returns a sum. \<open>save_image path a\<close> is the outcome of
  \<open>Image.fromarray(a).save(path)\<close>: the exception it raises, for a path that cannot be
  written for one, or the array that \<open>cv2.imread\<close> returns from the file it wrote.
  \<open>annotate\<close> draws the two rectangles and the label of one face at four times its
  location.
\<close>

datatype dtype = uint8 | other_dtype

record 'px ndarray =
  shape :: "nat list"
  dtype :: dtype
  pixels :: 'px

definition ndim :: "'px ndarray \<Rightarrow> nat" where
  "ndim a = length (shape a)"

record ('px, 'loc, 'enc) libraries =
  cvtColor :: "'px ndarray \<Rightarrow> py_exception + 'px ndarray"
  resize_quarter :: "'px ndarray \<Rightarrow> py_exception + 'px ndarray"
  scale_to_uint8 :: "'px ndarray \<Rightarrow> 'px ndarray"
  face_locations :: "'px ndarray \<Rightarrow> py_exception + 'loc list"
  face_encodings :: "'px ndarray \<Rightarrow> 'loc list option \<Rightarrow> py_exception + 'enc list"
  face_distance :: "'enc \<Rightarrow> 'enc \<Rightarrow> rat"
  annotate :: "'px ndarray \<Rightarrow> 'loc \<times> string \<Rightarrow> 'px ndarray"
  save_image :: "string \<Rightarrow> 'px ndarray \<Rightarrow> py_exception + 'px ndarray"

text \<open>
  The state of a \<open>FaceUtils\<close> object, with the image files it reads and writes:
  \<open>disk path\<close> is what \<open>cv2.imread(path)\<close> returns, \<open>None\<close> for a file that is missing or
  unreadable. A save that raises leaves the files as they were.
\<close>

record ('px, 'enc) face_utils =
  known_faces_dir :: string
  known_face_encodings :: "'enc list"
  known_face_names :: "string list"
  disk :: "string \<rightharpoonup> 'px ndarray"

definition os_path_join :: "string \<Rightarrow> string \<Rightarrow> string" where
  \<comment> \<open>\<open>os.path.join(a, b)\<close> of two components, on POSIX\<close>
  "os_path_join a b =
     (if b \<noteq> [] \<and> hd b = CHR ''/'' then b
      else if a = [] \<or> last a = CHR ''/'' then a @ b
      else a @ ''/'' @ b)"

definition to_uint8 :: "('px, 'loc, 'enc) libraries \<Rightarrow> 'px ndarray \<Rightarrow> 'px ndarray" where
  \<comment> \<open>\<open>if a.dtype != np.uint8: a = (255 * a).astype(np.uint8)\<close>\<close>
  "to_uint8 L a = (if dtype a \<noteq> uint8 then scale_to_uint8 L a else a)"

definition add_known_face :: "('px, 'loc, 'enc) libraries \<Rightarrow> ('px, 'enc) face_utils \<Rightarrow> string \<Rightarrow> string \<Rightarrow> ('px, 'enc) face_utils \<times> bool" where
  "add_known_face L fu image_path nm =
     (case disk fu image_path of
        None \<Rightarrow> (fu, False)
      | Some img \<Rightarrow>
          (case cvtColor L img of
             Inl e \<Rightarrow> (fu, False)
           | Inr rgb \<Rightarrow>
               (case face_encodings L (to_uint8 L rgb) None of
                  Inl e \<Rightarrow> (fu, False)
                | Inr encodings \<Rightarrow>
                    (case encodings of
                       [] \<Rightarrow> (fu, False)
                     | enc # _ \<Rightarrow>
                         (fu\<lparr>known_face_encodings := known_face_encodings fu @ [enc],
                             known_face_names := known_face_names fu @ [nm]\<rparr>, True)))))"

definition register_new_face :: "('px, 'loc, 'enc) libraries \<Rightarrow> ('px, 'enc) face_utils \<Rightarrow> string \<Rightarrow> string \<Rightarrow> ('px, 'enc) face_utils \<times> bool" where
  "register_new_face L fu image_path nm =
     (case disk fu image_path of
        None \<Rightarrow> (fu, False)
      | Some img \<Rightarrow>
          (case cvtColor L img of
             Inl e \<Rightarrow> (fu, False)
           | Inr rgb \<Rightarrow>
               (let rgb_image = to_uint8 L rgb
                in case face_locations L rgb_image of
                     Inl e \<Rightarrow> (fu, False)
                   | Inr locations \<Rightarrow>
                       (if length locations \<noteq> 1 then (fu, False)
                        else
                          (let save_path = os_path_join (known_faces_dir fu) (nm @ ''.jpg'')
                           in case save_image L save_path rgb_image of
                                Inl e \<Rightarrow> (fu, False)
                              | Inr saved \<Rightarrow>
                                  add_known_face L (fu\<lparr>disk := (disk fu)(save_path \<mapsto> saved)\<rparr>)
                                    save_path nm)))))"

definition compare_faces :: "('px, 'loc, 'enc) libraries \<Rightarrow> 'enc list \<Rightarrow> 'enc \<Rightarrow> rat \<Rightarrow> bool list" where
  "compare_faces L known e tolerance = map (\<lambda>k. face_distance L k e \<le> tolerance) known"

definition index_of_True :: "bool list \<Rightarrow> nat option" where
  \<comment> \<open>\<open>matches.index(True)\<close>, when \<open>True in matches\<close>\<close>
  "index_of_True bs = (if True \<in> set bs then Some (length (takeWhile (\<lambda>b. \<not> b) bs)) else None)"

definition match_face :: "('px, 'loc, 'enc) libraries \<Rightarrow> ('px, 'enc) face_utils \<Rightarrow> 'enc \<Rightarrow> py_exception + string" where
  \<comment> \<open>one turn of the loop over \<open>face_encodings\<close>; the tolerance is the float \<open>0.6\<close>\<close>
  "match_face L fu face_encoding =
     (let matches = compare_faces L (known_face_encodings fu) face_encoding (binary64 (6 / 10))
      in case index_of_True matches of
           None \<Rightarrow> Inr ''Unknown''
         | Some first_match_index \<Rightarrow>
             (if first_match_index < length (known_face_names fu)
              then Inr (known_face_names fu ! first_match_index)
              else Inl (IndexError ''list index out of range'')))"

fun match_faces :: "('px, 'loc, 'enc) libraries \<Rightarrow> ('px, 'enc) face_utils \<Rightarrow> 'enc list \<Rightarrow> py_exception + string list" where
  "match_faces L fu [] = Inr []"
| "match_faces L fu (e # es) =
     (case match_face L fu e of
        Inl x \<Rightarrow> Inl x
      | Inr n \<Rightarrow> (case match_faces L fu es of Inl x \<Rightarrow> Inl x | Inr ns \<Rightarrow> Inr (n # ns)))"

definition process_frame :: "('px, 'loc, 'enc) libraries \<Rightarrow> ('px, 'enc) face_utils \<Rightarrow> 'px ndarray option \<Rightarrow> py_exception + 'px ndarray \<times> string list" where
  "process_frame L fu frame_arg =
     (case frame_arg of
        None \<Rightarrow> Inl (ValueError ''Frame is None'')
      | Some frame0 \<Rightarrow>
          (if ndim frame0 \<noteq> 3 \<or> shape frame0 ! 2 \<noteq> 3 then Inl (ValueError ''Invalid frame format'')
           else
             (let frame = to_uint8 L frame0
              in case resize_quarter L frame of
                   Inl e \<Rightarrow> Inl e
                 | Inr small_frame \<Rightarrow>
                     (case cvtColor L small_frame of
                        Inl e \<Rightarrow> Inl e
                      | Inr rgb_small_frame \<Rightarrow>
                          (case face_locations L rgb_small_frame of
                             Inl e \<Rightarrow> Inr (frame, [])
                           | Inr locations \<Rightarrow>
                               (case face_encodings L rgb_small_frame (Some locations) of
                                  Inl e \<Rightarrow> Inr (frame, [])
                                | Inr encodings \<Rightarrow>
                                    (case match_faces L fu encodings of
                                       Inl e \<Rightarrow> Inl e
                                     | Inr face_names \<Rightarrow>
                                         Inr (fold (\<lambda>lab fr. annotate L fr lab)
                                                (zip locations face_names) frame,
                                              face_names))))))))"

section \<open>Liveness detection\<close>

text \<open>
  The detector keeps three counters. Times are the seconds that \<open>time.time()\<close> returns;
  every read during one call returns the same instant. The eye aspect ratio of a face is
  a float that the landmark predictor and the distance computations produce: the model
  takes it as given, \<open>None\<close> when it is not a finite number (a zero horizontal eye
  distance), and \<open>Inl\<close> when the landmark step raised before any counter changed.
  Drawing on the debug frame is left out.
\<close>

record liveness_detector =
  counter :: nat
  total_blinks :: nat
  last_blink_time :: rat

record liveness_result =
  is_live :: bool
  live_message :: string

definition EYE_AR_THRESH :: rat where
  \<comment> \<open>the float \<open>0.3\<close>\<close>
  "EYE_AR_THRESH = binary64 (3 / 10)"

definition EYE_AR_CONSEC_FRAMES :: nat where
  "EYE_AR_CONSEC_FRAMES = 3"

definition below_thresh :: "rat option \<Rightarrow> bool" where
  \<comment> \<open>\<open>ear < self.EYE_AR_THRESH\<close>: false for a value that is not finite\<close>
  "below_thresh ear = (case ear of None \<Rightarrow> False | Some x \<Rightarrow> x < EYE_AR_THRESH)"

definition detect_blink :: "liveness_detector \<Rightarrow> rat option \<Rightarrow> rat \<Rightarrow> liveness_detector" where
  "detect_blink d ear now =
     (if below_thresh ear then d\<lparr>counter := counter d + 1\<rparr>
      else
        (let d1 = (if counter d \<ge> EYE_AR_CONSEC_FRAMES
                   then d\<lparr>total_blinks := total_blinks d + 1, last_blink_time := now\<rparr>
                   else d)
         in d1\<lparr>counter := 0\<rparr>))"

definition str_exception :: "py_exception \<Rightarrow> string" where
  "str_exception e =
     (case e of KeyError s \<Rightarrow> [CHR 0x27] @ s @ [CHR 0x27] | ValueError s \<Rightarrow> s
      | IndexError s \<Rightarrow> s | AttributeError s \<Rightarrow> s | FileNotFoundError s \<Rightarrow> s
      | LibraryError s \<Rightarrow> s)"

definition check_face :: "liveness_detector \<Rightarrow> py_exception + rat option \<Rightarrow> rat \<Rightarrow> liveness_detector \<times> liveness_result" where
  \<comment> \<open>one turn of the loop over the detected faces\<close>
  "check_face d face now =
     (case face of
        Inl e \<Rightarrow>
          (d, \<lparr>is_live = False,
               live_message = ''Error in liveness detection: '' @ str_exception e\<rparr>)
      | Inr ear \<Rightarrow>
          (let d1 = detect_blink d ear now;
               time_since_last_blink = now - last_blink_time d1
           in if total_blinks d1 > 0 \<and> time_since_last_blink < 3
              then (d1, \<lparr>is_live = True, live_message = ''Live face detected''\<rparr>)
              else (d1, \<lparr>is_live = False, live_message = ''Please blink naturally''\<rparr>)))"

fun check_faces :: "liveness_detector \<Rightarrow> liveness_result \<Rightarrow> (py_exception + rat option) list \<Rightarrow> rat \<Rightarrow> liveness_detector \<times> liveness_result" where
  "check_faces d res [] now = (d, res)"
| "check_faces d res (face # faces) now =
     (let (d1, res1) = check_face d face now in check_faces d1 res1 faces now)"

definition check_liveness :: "liveness_detector \<Rightarrow> (py_exception + rat option) list \<Rightarrow> rat \<Rightarrow> liveness_detector \<times> liveness_result" where
  "check_liveness d faces now =
     check_faces d \<lparr>is_live = False, live_message = ''No face detected''\<rparr> faces now"

definition reset :: "liveness_detector \<Rightarrow> rat \<Rightarrow> liveness_detector" where
  "reset d now = d\<lparr>counter := 0, total_blinks := 0, last_blink_time := now\<rparr>"

section \<open>Sequences of calls\<close>

text \<open>
  A sequence of calls to the two entry points of the attendance manager, each at its own
  instant. \<open>run_calls\<close> makes them in order and keeps the state each one leaves.
\<close>

datatype call =
    Manual string string datetime
  | Recognised "string list" string datetime

fun run_calls :: "manager \<Rightarrow> call list \<Rightarrow> manager" where
  "run_calls m [] = m"
| "run_calls m (Manual emp_id action t # cs) = run_calls (fst (manual_attendance m emp_id action t)) cs"
| "run_calls m (Recognised names mode t # cs) = run_calls (fst (process_attendance m names mode t)) cs"

section \<open>Scenarios\<close>

text \<open>One registered employee, an empty attendance directory, and a day to work on.\<close>

definition alice :: employee where
  "alice = \<lparr>name = ''Alice'', department = ''Engineering'', position = ''Developer'',
            registration_date = ''2024-01-01''\<rparr>"

definition day0 :: date_str where
  "day0 = 739000"

definition clock :: "nat \<Rightarrow> nat \<Rightarrow> nat \<Rightarrow> datetime" where
  \<comment> \<open>the instant \<open>h:mi:s\<close> of \<open>day0\<close>\<close>
  "clock h mi s = day0 * usec_per_day + int (h * 3600 + mi * 60 + s) * 1000000"

text \<open>
  A reader for the scenarios: it takes a column whose cells are all strings of decimal
  digits for a column of integers, as the CSV reader does, and returns every other
  column as text.
\<close>

definition is_digits :: "string \<Rightarrow> bool" where
  "is_digits s = (s \<noteq> [] \<and> list_all (\<lambda>c. c \<in> set ''0123456789'') s)"

definition drop_zeros :: "string \<Rightarrow> string" where
  \<comment> \<open>the decimal text of the integer that a string of digits denotes\<close>
  "drop_zeros s = (let t = dropWhile (\<lambda>c. c = CHR ''0'') s in if t = [] then ''0'' else t)"

definition integer_reader :: "string list \<Rightarrow> string \<Rightarrow> cell" where
  "integer_reader column s =
     (if list_all is_digits column then Retyped (drop_zeros s) else Str s)"

definition m0 :: manager where
  "m0 = \<lparr>employees = [(''E1'', alice)], last_processed = Map.empty, files = Map.empty,
          read_column = integer_reader\<rparr>"

definition open_row :: "time_str \<Rightarrow> string row" where
  "open_row t =
     \<lparr>Employee_ID = ''E1'', Name = ''Alice'', Department = ''Engineering'',
      Position = ''Developer'', Date = day0, Check_In = t, Check_Out = None,
      Total_Hours = 0, Status = ''Present''\<rparr>"

definition closed_row :: "time_str \<Rightarrow> time_str \<Rightarrow> rat \<Rightarrow> string row" where
  "closed_row t_in t_out hours = (open_row t_in)\<lparr>Check_Out := Some t_out, Total_Hours := hours\<rparr>"

definition ledger :: "string row list \<Rightarrow> manager" where
  \<comment> \<open>\<open>m0\<close> with the given rows as the ledger of \<open>day0\<close>\<close>
  "ledger rows = m0\<lparr>files := [day0 \<mapsto> rows]\<rparr>"

text \<open>A second registry, whose one employee has an id made of digits.\<close>

definition bob :: employee where
  "bob = \<lparr>name = ''Bob'', department = ''Sales'', position = ''Clerk'',
          registration_date = ''2024-01-01''\<rparr>"

definition numbered :: manager where
  "numbered = \<lparr>employees = [(''101'', bob)], last_processed = Map.empty, files = Map.empty,
                read_column = integer_reader\<rparr>"

definition bob_row :: "time_str \<Rightarrow> string row" where
  "bob_row t =
     \<lparr>Employee_ID = ''101'', Name = ''Bob'', Department = ''Sales'',
      Position = ''Clerk'', Date = day0, Check_In = t, Check_Out = None,
      Total_Hours = 0, Status = ''Present''\<rparr>"

text \<open>
  A library over numbered pictures, for the face utilities: the content \<open>n\<close> of an array
  is the number of faces it shows, at the locations \<open>0, \<dots>, n - 1\<close>; the encoding of a
  face is its location. A picture can be saved in the directory \<open>known_faces\<close>, which
  has no subdirectory, and nothing is lost when it is saved. \<open>lossy_lib\<close> differs in one
  point: the saved copy of a picture shows no face. \<open>failing_lib\<close> differs in one point:
  face detection raises.
\<close>

definition in_known_faces :: "string \<Rightarrow> bool" where
  "in_known_faces path =
     (take 12 path = ''known_faces/'' \<and> CHR ''/'' \<notin> set (drop 12 path))"

definition toy_lib :: "(nat, nat, nat) libraries" where
  "toy_lib =
     \<lparr>cvtColor = Inr, resize_quarter = Inr,
      scale_to_uint8 = (\<lambda>a. a\<lparr>dtype := uint8\<rparr>),
      face_locations = (\<lambda>a. Inr [0..<pixels a]),
      face_encodings = (\<lambda>a ls. Inr (case ls of None \<Rightarrow> [0..<pixels a] | Some l \<Rightarrow> l)),
      face_distance = (\<lambda>x y. if x = y then 0 else 1),
      annotate = (\<lambda>a lab. a),
      save_image = (\<lambda>path a. if in_known_faces path then Inr a
                              else Inl (FileNotFoundError path))\<rparr>"

definition lossy_lib :: "(nat, nat, nat) libraries" where
  "lossy_lib = toy_lib\<lparr>save_image := (\<lambda>path a. Inr (a\<lparr>pixels := 0\<rparr>))\<rparr>"

definition failing_lib :: "(nat, nat, nat) libraries" where
  "failing_lib = toy_lib\<lparr>face_locations := (\<lambda>a. Inl (LibraryError ''face detection failed''))\<rparr>"

definition portrait :: "nat ndarray" where
  "portrait = \<lparr>shape = [480, 640, 3], dtype = uint8, pixels = 1\<rparr>"

definition group_photo :: "nat ndarray" where
  "group_photo = \<lparr>shape = [480, 640, 3], dtype = uint8, pixels = 2\<rparr>"

definition gray_frame :: "nat ndarray" where
  "gray_frame = \<lparr>shape = [480, 640], dtype = uint8, pixels = 1\<rparr>"

definition float_frame :: "nat ndarray" where
  "float_frame = \<lparr>shape = [480, 640, 3], dtype = other_dtype, pixels = 1\<rparr>"

definition fu0 :: "(nat, nat) face_utils" where
  "fu0 = \<lparr>known_faces_dir = ''known_faces'', known_face_encodings = [7],
           known_face_names = [''Ann''],
           disk = [''upload.jpg'' \<mapsto> portrait, ''group.jpg'' \<mapsto> group_photo]\<rparr>"

text \<open>A detector that has counted blinks before, for the liveness scenarios.\<close>

definition d0 :: liveness_detector where
  "d0 = \<lparr>counter = 2, total_blinks = 5, last_blink_time = 90\<rparr>"

section \<open>Properties of the attendance manager\<close>

subsection \<open>What the operations leave unchanged\<close>

lemma read_csv_update [simp]:
  "read_csv (m\<lparr>last_processed := lp\<rparr>) = read_csv m"
  "read_csv (m\<lparr>files := f\<rparr>) = read_csv m"
  by (simp_all add: read_csv_def fun_eq_iff)

lemma read_csv_cong: "read_column m' = read_column m \<Longrightarrow> read_csv m' = read_csv m"
  by (simp add: read_csv_def fun_eq_iff)

lemma length_read_csv [simp]: "length (read_csv m rows) = length rows"
  by (simp add: read_csv_def)

lemma length_to_csv [simp]: "length (to_csv df) = length df"
  by (simp add: to_csv_def)

lemma ensure_attendance_file_fields:
  "employees (fst (ensure_attendance_file m d)) = employees m"
  "last_processed (fst (ensure_attendance_file m d)) = last_processed m"
  "read_column (fst (ensure_attendance_file m d)) = read_column m"
  by (simp_all add: ensure_attendance_file_def split: option.splits)

lemma ensure_attendance_file_tracker:
  "ensure_attendance_file (m\<lparr>last_processed := lp\<rparr>) d =
     ((fst (ensure_attendance_file m d))\<lparr>last_processed := lp\<rparr>, snd (ensure_attendance_file m d))"
  by (simp add: ensure_attendance_file_def split: option.splits)

lemma get_current_status_fst: "fst (get_current_status m e now) = fst (ensure_attendance_file m (strftime_date now))"
  by (simp add: get_current_status_def Let_def split: prod.splits)

lemma get_current_status_tracker:
  "get_current_status (m\<lparr>last_processed := lp\<rparr>) e now =
     ((fst (get_current_status m e now))\<lparr>last_processed := lp\<rparr>, snd (get_current_status m e now))"
  by (simp add: get_current_status_def Let_def ensure_attendance_file_tracker split: prod.splits)

lemma get_current_status_fields:
  "employees (fst (get_current_status m e now)) = employees m"
  "last_processed (fst (get_current_status m e now)) = last_processed m"
  "read_column (fst (get_current_status m e now)) = read_column m"
  by (simp_all add: get_current_status_fst ensure_attendance_file_fields)

lemma process_check_in_tracker:
  "process_check_in (m\<lparr>last_processed := lp\<rparr>) e now =
     ((fst (process_check_in m e now))\<lparr>last_processed := lp\<rparr>, snd (process_check_in m e now))"
  by (simp add: process_check_in_def Let_def get_current_status_tracker get_employee_details_def split: prod.splits option.splits)

lemma process_check_out_tracker:
  "process_check_out (m\<lparr>last_processed := lp\<rparr>) e now =
     ((fst (process_check_out m e now))\<lparr>last_processed := lp\<rparr>, snd (process_check_out m e now))"
  by (simp add: process_check_out_def Let_def get_current_status_tracker get_employee_details_def split: prod.splits option.splits)

lemma process_check_in_fields:
  "employees (fst (process_check_in m e now)) = employees m"
  "last_processed (fst (process_check_in m e now)) = last_processed m"
  "read_column (fst (process_check_in m e now)) = read_column m"
  using get_current_status_fields[of m e now]
  by (auto simp add: process_check_in_def Let_def split: prod.splits option.splits)

lemma process_check_out_fields:
  "employees (fst (process_check_out m e now)) = employees m"
  "last_processed (fst (process_check_out m e now)) = last_processed m"
  "read_column (fst (process_check_out m e now)) = read_column m"
  using get_current_status_fields[of m e now]
  by (auto simp add: process_check_out_def Let_def split: prod.splits option.splits)

lemma manual_attendance_reader:
  "read_column (fst (manual_attendance m emp_id action now)) = read_column m"
  by (simp add: manual_attendance_def process_check_in_fields process_check_out_fields)

text \<open>
  Claim C10. \<open>manual_attendance\<close> neither reads nor writes the cooldown tracker: the
  \<open>last_processed\<close> map after the call is the map before it, and running the call with any
  other tracker \<open>lp\<close> gives the same result and the same state but for that tracker, so
  no manual check-in or check-out is rejected for a cooldown.
\<close>

theorem manual_attendance_leaves_cooldown_tracker:
  "last_processed (fst (manual_attendance m emp_id action now)) = last_processed m \<and>
   manual_attendance (m\<lparr>last_processed := lp\<rparr>) emp_id action now =
     ((fst (manual_attendance m emp_id action now))\<lparr>last_processed := lp\<rparr>,
      snd (manual_attendance m emp_id action now))"
  by (simp add: manual_attendance_def process_check_in_fields process_check_out_fields process_check_in_tracker process_check_out_tracker)

subsection \<open>The cooldown between recognitions\<close>

lemma set_last_processed_fields:
  "employees (set_last_processed m e t r) = employees m"
  "files (set_last_processed m e t r) = files m"
  by (simp_all add: set_last_processed_def split: sum.splits)

lemma set_last_processed_success:
  "status r = SUCCESS \<Longrightarrow> last_processed (set_last_processed m e t (Inr r)) e = Some t"
  by (simp add: set_last_processed_def)

lemma process_name_SUCCESS:
  assumes "process_name m mode n t = (m1, Inr (Some r))" and "status r = SUCCESS"
  shows "\<exists>e d. n \<noteq> ''Unknown'' \<and> get_employee_by_name m n = Some (e, d)
           \<and> last_processed m1 e = Some t \<and> employees m1 = employees m"
proof -
  from assms have n: "n \<noteq> ''Unknown''"
    by (auto simp: process_name_def)
  from assms n obtain e d where g: "get_employee_by_name m n = Some (e, d)"
    by (cases "get_employee_by_name m n") (auto simp: process_name_def)
  from assms n g have c: "in_cooldown m e t = None"
    by (cases "in_cooldown m e t") (auto simp: process_name_def)
  obtain ma st where s: "get_current_status m e t = (ma, st)"
    by (cases "get_current_status m e t")
  have ema: "employees ma = employees m"
    using get_current_status_fields(1)[of m e t] s by simp
  obtain mi ri where i: "process_check_in ma e t = (mi, ri)"
    by (cases "process_check_in ma e t")
  obtain mo ro where out: "process_check_out ma e t = (mo, ro)"
    by (cases "process_check_out ma e t")
  have emi: "employees mi = employees m"
    using process_check_in_fields(1)[of ma e t] i ema by simp
  have emo: "employees mo = employees m"
    using process_check_out_fields(1)[of ma e t] out ema by simp
  have S: "map_option status (case snd (process_name m mode n t) of Inr x \<Rightarrow> x | Inl _ \<Rightarrow> None)
             = Some SUCCESS"
    using assms by simp
  have "(m1 = set_last_processed mi e t (Inr r)) \<or> (m1 = set_last_processed mo e t (Inr r))"
  proof (cases "mode = ''CHECK_IN'' \<or> mode = ''CHECK IN''")
    case True
    have "\<not> already_checked_in_today st \<and> \<not> is_checked_in st \<and> \<not> has_incomplete_record st"
      using S n g c s i True
      by (cases ri) (simp_all add: process_name_def split: if_split_asm)
    then have "process_name m mode n t = (set_last_processed mi e t ri, map_sum id Some ri)"
      using n g c s i True by (simp add: process_name_def)
    with assms(1) show ?thesis by (cases ri) auto
  next
    case False
    show ?thesis
    proof (cases "mode = ''CHECK_OUT'' \<or> mode = ''CHECK OUT''")
      case True
      have "\<not> already_checked_in_today st \<and> is_checked_in st
              \<and> \<not> elapsed_minutes st < of_int MIN_CHECKOUT_MINUTES"
        using S n g c s out True False
        by (cases ro) (simp_all add: process_name_def split: if_split_asm)
      then have "process_name m mode n t = (set_last_processed mo e t ro, map_sum id Some ro)"
        using n g c s out True False by (simp add: process_name_def)
      with assms(1) show ?thesis by (cases ro) auto
    next
      case F2: False
      show ?thesis
        using S n g c s False F2
        by (simp add: process_name_def)
    qed
  qed
  then have "last_processed m1 e = Some t \<and> employees m1 = employees m"
    using emi emo assms(2) by (auto simp: set_last_processed_fields set_last_processed_success)
  with n g show ?thesis by blast
qed

lemma py_int_pos: "0 \<le> x \<Longrightarrow> py_int x = \<lfloor>x\<rfloor>"
  by (simp add: py_int_def)

lemma process_name_cooldown:
  assumes "n \<noteq> ''Unknown''" and "get_employee_by_name m n = Some (e, d)"
    and "last_processed m e = Some t0" and "t1 - t0 < 60000000"
  shows "process_name m mode n t1 =
     (m, Inr (Some \<lparr>status = ERROR,
                    message = hourglass @ '' Please wait ''
                      @ str_int \<lfloor>60 - rat_of_int (t1 - t0) / 1000000\<rfloor>
                      @ '' seconds before trying again''\<rparr>))"
proof -
  have lt: "total_seconds (t1 - t0) < 60"
    using assms(4) by (simp add: total_seconds_def divide_less_eq)
  then have c: "in_cooldown m e t1 = Some (total_seconds (t1 - t0))"
    using assms(3) by (simp add: in_cooldown_def COOLDOWN_SECONDS_def)
  have "py_int (60 - total_seconds (t1 - t0)) = \<lfloor>60 - total_seconds (t1 - t0)\<rfloor>"
    using lt by (intro py_int_pos) simp
  then show ?thesis
    using assms(1,2) c by (simp add: process_name_def COOLDOWN_SECONDS_def total_seconds_def)
qed

lemma process_name_cases:
  "fst (process_name m mode n t) = m \<or>
   (\<exists>e. fst (process_name m mode n t) = fst (get_current_status m e t)) \<or>
   (\<exists>e. \<not> already_checked_in_today (snd (get_current_status m e t)) \<and>
        \<not> is_checked_in (snd (get_current_status m e t)) \<and>
        process_name m mode n t =
          (set_last_processed (fst (process_check_in (fst (get_current_status m e t)) e t)) e t
             (snd (process_check_in (fst (get_current_status m e t)) e t)),
           map_sum id Some (snd (process_check_in (fst (get_current_status m e t)) e t)))) \<or>
   (\<exists>e. process_name m mode n t =
          (set_last_processed (fst (process_check_out (fst (get_current_status m e t)) e t)) e t
             (snd (process_check_out (fst (get_current_status m e t)) e t)),
           map_sum id Some (snd (process_check_out (fst (get_current_status m e t)) e t))))"
proof (cases "n = ''Unknown''")
  case True
  then show ?thesis by (simp add: process_name_def)
next
  case n: False
  show ?thesis
  proof (cases "get_employee_by_name m n")
    case None
    with n show ?thesis by (simp add: process_name_def)
  next
    case (Some p)
    obtain e d where p: "p = (e, d)" by (cases p)
    show ?thesis
    proof (cases "in_cooldown m e t")
      case (Some x)
      with n \<open>get_employee_by_name m n = Some p\<close> p show ?thesis by (simp add: process_name_def)
    next
      case None
      obtain m1 st where g: "get_current_status m e t = (m1, st)"
        by (cases "get_current_status m e t")
      obtain mi ri where i: "process_check_in m1 e t = (mi, ri)"
        by (cases "process_check_in m1 e t")
      obtain mo ro where out: "process_check_out m1 e t = (mo, ro)"
        by (cases "process_check_out m1 e t")
      have "fst (process_name m mode n t) = m1 \<or>
          (\<not> already_checked_in_today st \<and> \<not> is_checked_in st \<and>
           process_name m mode n t = (set_last_processed mi e t ri, map_sum id Some ri)) \<or>
          process_name m mode n t = (set_last_processed mo e t ro, map_sum id Some ro)"
        using n \<open>get_employee_by_name m n = Some p\<close> p None g i out
        by (simp add: process_name_def)
      then consider "fst (process_name m mode n t) = fst (get_current_status m e t)"
        | "\<not> already_checked_in_today (snd (get_current_status m e t)) \<and>
           \<not> is_checked_in (snd (get_current_status m e t)) \<and>
           process_name m mode n t =
             (set_last_processed (fst (process_check_in (fst (get_current_status m e t)) e t)) e t
                (snd (process_check_in (fst (get_current_status m e t)) e t)),
              map_sum id Some (snd (process_check_in (fst (get_current_status m e t)) e t)))"
        | "process_name m mode n t =
             (set_last_processed (fst (process_check_out (fst (get_current_status m e t)) e t)) e t
                (snd (process_check_out (fst (get_current_status m e t)) e t)),
              map_sum id Some (snd (process_check_out (fst (get_current_status m e t)) e t)))"
        using g i out by auto
      then show ?thesis by cases blast+
    qed
  qed
qed

lemma process_name_reader:
  "read_column (fst (process_name m mode n t)) = read_column m"
proof -
  have r: "read_column (set_last_processed m' e t' r) = read_column m'" for m' e t' r
    by (simp add: set_last_processed_def split: sum.splits)
  from process_name_cases[of m mode n t] show ?thesis
    by (auto simp: r get_current_status_fields process_check_in_fields process_check_out_fields)
qed

lemma set_last_processed_no_success:
  "(\<forall>res. r = Inr res \<longrightarrow> status res \<noteq> SUCCESS) \<Longrightarrow>
     last_processed (set_last_processed m e t r) = last_processed m"
  by (cases r) (simp_all add: set_last_processed_def)

lemma process_name_no_success:
  assumes "process_name m mode n t = (m1, r)"
    and "\<forall>res. r = Inr (Some res) \<longrightarrow> status res \<noteq> SUCCESS"
  shows "last_processed m1 = last_processed m"
proof -
  from process_name_cases[of m mode n t]
  consider (same) "fst (process_name m mode n t) = m"
    | (status) e where "fst (process_name m mode n t) = fst (get_current_status m e t)"
    | (cin) e where "process_name m mode n t =
          (set_last_processed (fst (process_check_in (fst (get_current_status m e t)) e t)) e t
             (snd (process_check_in (fst (get_current_status m e t)) e t)),
           map_sum id Some (snd (process_check_in (fst (get_current_status m e t)) e t)))"
    | (cout) e where "process_name m mode n t =
          (set_last_processed (fst (process_check_out (fst (get_current_status m e t)) e t)) e t
             (snd (process_check_out (fst (get_current_status m e t)) e t)),
           map_sum id Some (snd (process_check_out (fst (get_current_status m e t)) e t)))"
    by blast
  then show ?thesis
  proof cases
    case same
    with assms(1) show ?thesis by simp
  next
    case status
    with assms(1) show ?thesis by (simp add: get_current_status_fields)
  next
    case cin
    define X where "X = process_check_in (fst (get_current_status m e t)) e t"
    from cin assms(1) have m1: "m1 = set_last_processed (fst X) e t (snd X)"
      and r: "r = map_sum id Some (snd X)" by (simp_all add: X_def)
    from r assms(2) have "\<forall>res. snd X = Inr res \<longrightarrow> status res \<noteq> SUCCESS" by auto
    from set_last_processed_no_success[OF this] show ?thesis
      by (simp add: m1 X_def process_check_in_fields get_current_status_fields)
  next
    case cout
    define X where "X = process_check_out (fst (get_current_status m e t)) e t"
    from cout assms(1) have m1: "m1 = set_last_processed (fst X) e t (snd X)"
      and r: "r = map_sum id Some (snd X)" by (simp_all add: X_def)
    from r assms(2) have "\<forall>res. snd X = Inr res \<longrightarrow> status res \<noteq> SUCCESS" by auto
    from set_last_processed_no_success[OF this] show ?thesis
      by (simp add: m1 X_def process_check_out_fields get_current_status_fields)
  qed
qed

lemma process_names_no_success:
  "process_names m mode ns t = (m1, Inr rs) \<Longrightarrow> list_all (\<lambda>r. status r \<noteq> SUCCESS) rs \<Longrightarrow>
     last_processed m1 = last_processed m"
proof (induction ns arbitrary: m m1 rs)
  case Nil
  then show ?case by simp
next
  case (Cons n ns)
  obtain ma r where p: "process_name m mode n t = (ma, r)"
    by (cases "process_name m mode n t")
  with Cons.prems(1) obtain x where r: "r = Inr x"
    by (cases r) auto
  obtain mb q where ps: "process_names ma mode ns t = (mb, q)"
    by (cases "process_names ma mode ns t")
  with Cons.prems(1) p r obtain rs' where q: "q = Inr rs'"
    by (cases q) auto
  from Cons.prems(1) p r ps q have m1: "m1 = mb"
    and rs: "rs = (case x of None \<Rightarrow> [] | Some y \<Rightarrow> [y]) @ rs'"
    by simp_all
  from rs Cons.prems(2) have a: "\<forall>res. r = Inr (Some res) \<longrightarrow> status res \<noteq> SUCCESS"
    and b: "list_all (\<lambda>r. status r \<noteq> SUCCESS) rs'"
    by (auto simp: r)
  from process_name_no_success[OF p a] Cons.IH[OF ps[unfolded q] b] m1
  show ?case by simp
qed

text \<open>
  Claim C3, as amended. When a \<open>process_attendance\<close> call for one recognised name returned
  \<open>SUCCESS\<close> at \<open>t0\<close>, the next \<open>process_attendance\<close> call for that name, in either
  mode, made at \<open>t1\<close> less than 60 seconds later, is rejected with the cooldown message,
  whose number of seconds is 60 minus the elapsed seconds, rounded down; the state is
  left as it was. A \<open>process_attendance\<close> call, for any list of names, none of whose
  results is a \<open>SUCCESS\<close> leaves the cooldown tracker as it was: it starts no cooldown.
\<close>

theorem cooldown_after_success:
  "(\<forall>m1 r t1 mode'.
      process_attendance m [n] mode t0 = (m1, Inr [r]) \<and> status r = SUCCESS \<and>
      t1 - t0 < 60000000
      \<longrightarrow> process_attendance m1 [n] mode' t1 =
            (m1, Inr [\<lparr>status = ERROR,
                       message = hourglass @ '' Please wait ''
                         @ str_int \<lfloor>60 - rat_of_int (t1 - t0) / 1000000\<rfloor>
                         @ '' seconds before trying again''\<rparr>])) \<and>
   (\<forall>names m1 rs.
      process_attendance m names mode t0 = (m1, Inr rs) \<and>
      list_all (\<lambda>r. status r \<noteq> SUCCESS) rs
      \<longrightarrow> last_processed m1 = last_processed m)"
proof (intro conjI allI impI)
  fix m1 r t1 mode'
  assume a: "process_attendance m [n] mode t0 = (m1, Inr [r]) \<and> status r = SUCCESS \<and>
      t1 - t0 < 60000000"
  then have pn: "process_name m (upper mode) n t0 = (m1, Inr (Some r))"
    by (auto simp: process_attendance_def split: prod.splits sum.splits option.splits)
  from a have s: "status r = SUCCESS" and lt: "t1 - t0 < 60000000" by simp_all
  from process_name_SUCCESS[OF pn s] obtain e d where
    n: "n \<noteq> ''Unknown''" and g: "get_employee_by_name m n = Some (e, d)"
    and lp: "last_processed m1 e = Some t0" and em: "employees m1 = employees m"
    by blast
  from g em have g1: "get_employee_by_name m1 n = Some (e, d)"
    by (simp add: get_employee_by_name_def)
  show "process_attendance m1 [n] mode' t1 =
            (m1, Inr [\<lparr>status = ERROR,
                       message = hourglass @ '' Please wait ''
                         @ str_int \<lfloor>60 - rat_of_int (t1 - t0) / 1000000\<rfloor>
                         @ '' seconds before trying again''\<rparr>])"
    by (simp add: process_attendance_def process_name_cooldown[OF n g1 lp lt])
next
  fix names m1 rs
  assume "process_attendance m names mode t0 = (m1, Inr rs) \<and>
      list_all (\<lambda>r. status r \<noteq> SUCCESS) rs"
  then show "last_processed m1 = last_processed m"
    by (auto simp: process_attendance_def dest: process_names_no_success)
qed

subsection \<open>Rounding of binary floats\<close>

lemma bit_length_bounds:
  "0 < n \<Longrightarrow> 2 ^ (bit_length n - 1) \<le> n \<and> n < 2 ^ bit_length n"
proof (induction n rule: bit_length.induct)
  case (1 n)
  show ?case
  proof (cases "n div 2 = 0")
    case True
    with "1.prems" have "n = 1" by (simp add: div_eq_0_iff) 
    then show ?thesis by (simp add: bit_length.simps)
  next
    case False
    then have pos: "0 < n div 2" by simp
    from "1.IH" "1.prems" pos
    have ih: "2 ^ (bit_length (n div 2) - 1) \<le> n div 2 \<and> n div 2 < 2 ^ bit_length (n div 2)"
      by simp
    have bl: "bit_length n = Suc (bit_length (n div 2))"
      using "1.prems" by (subst bit_length.simps) simp
    have blpos: "0 < bit_length (n div 2)"
      using pos by (subst bit_length.simps) simp
    then obtain k where k: "bit_length (n div 2) = Suc k" by (cases "bit_length (n div 2)") auto
    from ih k have "2 ^ k \<le> n div 2" "n div 2 < 2 ^ Suc k" by simp_all
    then have "2 * 2 ^ k \<le> n" "n < 2 * 2 ^ Suc k" by linarith+
    then show ?thesis by (simp add: bl k)
  qed
qed

lemma ilog2_le:
  assumes "0 < x"
  shows "2 powi (ilog2 x) \<le> x"
proof -
  obtain p q where pq: "quotient_of x = (p, q)" by (cases "quotient_of x")
  then have q: "0 < q" and x: "x = of_int p / of_int q"
    using quotient_of_denom_pos quotient_of_div by blast+
  from assms x q have p: "0 < p" by (simp add: zero_less_divide_iff)
  define a where "a = bit_length (nat p)"
  define b where "b = bit_length (nat q)"
  have pa: "2 ^ (a - 1) \<le> nat p" and qb: "nat q < 2 ^ b"
    using bit_length_bounds[of "nat p"] bit_length_bounds[of "nat q"] p q
    by (simp_all add: a_def b_def)
  have apos: "0 < a" unfolding a_def using p by (subst bit_length.simps) simp
  show ?thesis
  proof (cases "2 powi (int a - int b) \<le> x")
    case True
    then show ?thesis using pq by (simp add: ilog2_def a_def b_def)
  next
    case False
    then have il: "ilog2 x = int a - int b - 1"
      using pq by (simp add: ilog2_def a_def b_def)
    have "(2::rat) ^ (a - 1) \<le> of_int p"
    proof -
      have "int (2 ^ (a - 1)) \<le> p" using pa p by linarith
      then have "rat_of_int (int (2 ^ (a - 1))) \<le> of_int p" by (simp only: of_int_le_iff)
      then show ?thesis by simp
    qed
    moreover have "of_int q \<le> (2::rat) ^ b"
    proof -
      have "q \<le> int (2 ^ b)" using qb q by linarith
      then have "rat_of_int q \<le> of_int (int (2 ^ b))" by (simp only: of_int_le_iff)
      then show ?thesis by simp
    qed
    ultimately have "(2::rat) ^ (a - 1) / 2 ^ b \<le> of_int p / of_int q"
      using q p by (intro frac_le) simp_all
    moreover have "(2::rat) powi (int a - int b - 1) = 2 ^ (a - 1) / 2 ^ b"
    proof -
      obtain a' where a': "a = Suc a'" using apos by (cases a) auto
      have "int a - int b - 1 = int a' - int b" using a' by simp
      then have "(2::rat) powi (int a - int b - 1) = 2 powi (int a' - int b)" by (simp only:)
      also have "\<dots> = 2 ^ a' / 2 ^ b" by (simp add: power_int_diff)
      finally show ?thesis using a' by simp
    qed
    ultimately show ?thesis using il x by simp
  qed
qed

lemma round_half_even_err: "\<bar>of_int (round_half_even x) - x\<bar> \<le> 1 / 2"
proof -
  have "of_int \<lfloor>x\<rfloor> \<le> x" "x < of_int \<lfloor>x\<rfloor> + 1" by linarith+
  then show ?thesis
    by (auto simp: round_half_even_def Let_def)
qed

lemma binary64_err:
  assumes "0 < x"
  shows "\<bar>binary64 x - x\<bar> \<le> x / 2 ^ 53"
proof -
  define e where "e = ilog2 x - 52"
  define s :: rat where "s = 2 powi e"
  have spos: "0 < s" by (simp add: s_def)
  have b: "binary64 x = of_int (round_half_even (x / s)) * s"
    using assms by (simp add: binary64_def e_def s_def Let_def)
  have "\<bar>of_int (round_half_even (x / s)) - x / s\<bar> \<le> 1 / 2"
    by (rule round_half_even_err)
  then have "\<bar>of_int (round_half_even (x / s)) - x / s\<bar> * s \<le> 1 / 2 * s"
    using spos by (intro mult_right_mono) simp_all
  moreover have "\<bar>of_int (round_half_even (x / s)) - x / s\<bar> * s = \<bar>binary64 x - x\<bar>"
  proof -
    have "\<bar>of_int (round_half_even (x / s)) - x / s\<bar> * s
            = \<bar>(of_int (round_half_even (x / s)) - x / s) * s\<bar>"
      using spos by (simp add: abs_mult)
    also have "(of_int (round_half_even (x / s)) - x / s) * s = binary64 x - x"
      using spos by (simp add: b algebra_simps)
    finally show ?thesis .
  qed
  ultimately have "\<bar>binary64 x - x\<bar> \<le> s / 2" by simp
  moreover have "s = 2 powi (ilog2 x) / 2 ^ 52"
    by (simp add: s_def e_def power_int_diff)
  moreover have "2 powi (ilog2 x) \<le> x" by (rule ilog2_le[OF assms])
  ultimately have "\<bar>binary64 x - x\<bar> \<le> x / 2 ^ 52 / 2"
    by (simp add: divide_right_mono)
  then show ?thesis by simp
qed

lemma round2_hours_nearest:
  assumes "0 < s" and "s < 2 ^ 53"
  defines "k \<equiv> round_half_even (binary64 (of_int s / 3600) * 100)"
  shows "\<bar>of_int k / 100 - rat_of_int s / 3600\<bar> \<le> 1 / 200"
proof -
  define x :: rat where "x = of_int s / 3600"
  define y where "y = binary64 x"
  have xpos: "0 < x" using assms(1) by (simp add: x_def)
  have e1: "\<bar>y - x\<bar> \<le> x / 2 ^ 53" unfolding y_def by (rule binary64_err[OF xpos])
  have e2: "\<bar>of_int k - y * 100\<bar> \<le> 1 / 2"
    unfolding k_def y_def x_def by (rule round_half_even_err)
  have "x < 2 ^ 53 / 3600" using assms(2) by (simp add: x_def)
  then have "x / 2 ^ 53 < 1 / 3600" by (simp add: field_simps)
  with e1 have e3: "\<bar>y - x\<bar> < 1 / 3600" by linarith
  have "\<bar>of_int k - x * 100\<bar> < 1 / 2 + 1 / 36"
    using e2 e3 by (simp add: abs_if split: if_splits) 
  then have "\<bar>of_int k * 36 - x * 3600\<bar> < 19"
    by (simp add: abs_if split: if_splits)
  then have "\<bar>rat_of_int (k * 36 - s)\<bar> < 19" by (simp add: x_def)
  then have "\<bar>k * 36 - s\<bar> < 19"
    by (metis of_int_abs of_int_less_iff of_int_numeral)
  then have "\<bar>k * 36 - s\<bar> \<le> 18" by linarith
  then have "\<bar>rat_of_int (k * 36 - s)\<bar> \<le> 18"
    by (metis of_int_abs of_int_le_iff of_int_numeral)
  then show ?thesis by (simp add: abs_if field_simps split: if_splits)
qed

subsection \<open>The shape of a check-out\<close>

lemma last_filter_enumerate:
  assumes "filter P (enumerate 0 df) \<noteq> []" and "last (filter P (enumerate 0 df)) = (idx, r)"
  shows "idx < length df \<and> r = df ! idx \<and> P (idx, r)"
proof -
  from assms have "(idx, r) \<in> set (filter P (enumerate 0 df))"
    by (metis last_in_set)
  then show ?thesis by (auto simp: in_set_enumerate_eq)
qed

lemma read_csv_nth:
  assumes "i < length rows"
  shows "Check_In (read_csv m rows ! i) = Check_In (rows ! i)"
    and "Check_Out (read_csv m rows ! i) = Check_Out (rows ! i)"
    and "Total_Hours (read_csv m rows ! i) = Total_Hours (rows ! i)"
    and "Date (read_csv m rows ! i) = Date (rows ! i)"
  using assms by (simp_all add: read_csv_def)

lemma to_csv_nth:
  assumes "i < length df"
  shows "Employee_ID (to_csv df ! i) = text_of (Employee_ID (df ! i))"
    and "Check_In (to_csv df ! i) = Check_In (df ! i)"
    and "Check_Out (to_csv df ! i) = Check_Out (df ! i)"
    and "Total_Hours (to_csv df ! i) = Total_Hours (df ! i)"
  using assms by (simp_all add: to_csv_def)

lemma get_current_status_checked_in:
  assumes "get_current_status m e now = (m1, st)" and "is_checked_in st"
  shows "\<exists>idx rows. files m (strftime_date now) = Some rows \<and> m1 = m \<and> idx < length rows
           \<and> record_index st = Some idx
           \<and> Employee_ID (read_csv m rows ! idx) = Str e
           \<and> Check_Out (rows ! idx) = None
           \<and> check_in_time st = Some (Check_In (rows ! idx))
           \<and> elapsed_minutes st
               = calculate_elapsed_minutes (strftime_date now) (Check_In (rows ! idx)) now
           \<and> has_incomplete_record st \<and> \<not> already_checked_in_today st"
proof (cases "files m (strftime_date now)")
  case None
  with assms show ?thesis
    by (auto simp: get_current_status_def ensure_attendance_file_def no_record_status_def)
next
  case (Some rows)
  define df where "df = read_csv m rows"
  define recs where "recs = filter (\<lambda>(i, r). Employee_ID r = Str e) (enumerate 0 df)"
  obtain idx r where l: "last recs = (idx, r)" by (cases "last recs")
  from assms Some have ne: "recs \<noteq> []"
    by (auto simp: get_current_status_def ensure_attendance_file_def no_record_status_def
          recs_def df_def Let_def split: if_splits)
  from last_filter_enumerate[OF ne[unfolded recs_def] l[unfolded recs_def]]
  have ir: "idx < length df" "r = df ! idx" "Employee_ID r = Str e" by auto
  then have ix: "idx < length rows" by (simp add: df_def)
  from assms Some ne l have "m1 = m \<and> record_index st = Some idx
       \<and> Check_Out r = None \<and> check_in_time st = Some (Check_In r)
       \<and> elapsed_minutes st = calculate_elapsed_minutes (strftime_date now) (Check_In r) now
       \<and> has_incomplete_record st \<and> \<not> already_checked_in_today st"
    by (auto simp: get_current_status_def ensure_attendance_file_def no_record_status_def
          recs_def[symmetric] df_def[symmetric] Let_def split: if_splits)
  with Some ir ix show ?thesis
    using read_csv_nth[OF ix, of m] by (auto simp: df_def)
qed

lemma process_check_out_success:
  assumes "process_check_out m e now = (m', Inr r)" and "status r = SUCCESS"
    and "get_current_status m e now = (m1, st)"
  shows "is_checked_in st \<and> \<not> elapsed_minutes st < 60 \<and>
     (\<exists>idx cin rows. record_index st = Some idx \<and> check_in_time st = Some cin
        \<and> files m1 (strftime_date now) = Some rows
        \<and> files m' = (files m1)(strftime_date now \<mapsto>
             to_csv ((read_csv m1 rows)[idx := (read_csv m1 rows ! idx)\<lparr>Check_Out := Some (strftime_time now),
                  Total_Hours := py_round2 (binary64 (total_seconds
                     (strptime (strftime_date now) (strftime_time now)
                        - strptime (strftime_date now) cin) / 3600))\<rparr>])))"
proof -
  have S: "map_option status (case snd (process_check_out m e now) of Inr x \<Rightarrow> Some x | Inl _ \<Rightarrow> None)
             = Some SUCCESS"
    using assms(1,2) by simp
  have c: "is_checked_in st \<and> \<not> elapsed_minutes st < 60"
    using S assms(3)
    by (simp add: process_check_out_def Let_def MIN_CHECKOUT_MINUTES_def
          split: if_split_asm option.split_asm)
  obtain idx cin rows where v: "record_index st = Some idx" "check_in_time st = Some cin"
     "files m1 (strftime_date now) = Some rows"
    using S assms(3) c
    by (cases "record_index st"; cases "check_in_time st"; cases "files m1 (strftime_date now)")
       (simp_all add: process_check_out_def Let_def MIN_CHECKOUT_MINUTES_def)
  have "fst (process_check_out m e now) = m1\<lparr>files := (files m1)(strftime_date now \<mapsto>
             to_csv ((read_csv m1 rows)[idx := (read_csv m1 rows ! idx)\<lparr>Check_Out := Some (strftime_time now),
                  Total_Hours := py_round2 (binary64 (total_seconds
                     (strptime (strftime_date now) (strftime_time now)
                        - strptime (strftime_date now) cin) / 3600))\<rparr>]))\<rparr>"
    using assms(3) c v
    by (simp add: process_check_out_def Let_def MIN_CHECKOUT_MINUTES_def split: option.splits)
  with assms(1) c v show ?thesis by auto
qed

lemma elapsed_seconds:
  assumes "\<not> calculate_elapsed_minutes (strftime_date now) cin now < 60"
  shows "int cin + 3600 \<le> int (strftime_time now)"
proof -
  define q where "q = now div 86400000000"
  define r where "r = now mod 86400000000"
  have r: "0 \<le> r" and n: "now = q * 86400000000 + r" by (simp_all add: r_def q_def)
  from assms have "60 \<le> rat_of_int (now - (q * 86400000000 + int cin * 1000000)) / 1000000 / 60"
    by (simp add: calculate_elapsed_minutes_def total_seconds_def strptime_def strftime_date_def
          usec_per_day_def q_def)
  then have "rat_of_int 3600000000 \<le> rat_of_int (now - (q * 86400000000 + int cin * 1000000))"
    by (simp add: field_simps)
  then have "3600000000 \<le> now - (q * 86400000000 + int cin * 1000000)"
    by (simp only: of_int_le_iff)
  then have "3600000000 \<le> r - int cin * 1000000" by (subst (asm) n) simp
  then have "(int cin + 3600) * 1000000 \<le> r" by (simp add: algebra_simps)
  then have "((int cin + 3600) * 1000000) div 1000000 \<le> r div 1000000"
    by (rule zdiv_mono1) simp
  then have "int cin + 3600 \<le> r div 1000000" by simp
  then show ?thesis using r by (simp add: strftime_time_def r_def usec_per_day_def)
qed

subsection \<open>The path from a recognised name\<close>

lemma get_current_status_completed:
  assumes "files m (strftime_date now) = Some rows" and "i < length rows"
    and "Employee_ID (read_csv m rows ! i) = Str e" and "Check_Out (rows ! i) \<noteq> None"
  shows "fst (get_current_status m e now) = m
     \<and> already_checked_in_today (snd (get_current_status m e now))
     \<and> \<not> is_checked_in (snd (get_current_status m e now))
     \<and> \<not> has_incomplete_record (snd (get_current_status m e now))"
proof -
  define df where "df = read_csv m rows"
  define recs where "recs = filter (\<lambda>(i, r). Employee_ID r = Str e) (enumerate 0 df)"
  have i: "i < length df" using assms(2) by (simp add: df_def)
  then have "(i, df ! i) \<in> set (enumerate 0 df)" by (auto simp: in_set_enumerate_eq)
  moreover have "Check_Out (df ! i) \<noteq> None"
    using read_csv_nth(2)[OF assms(2), of m] assms(4) by (simp add: df_def)
  ultimately have "(i, df ! i) \<in> set (filter (\<lambda>(i, r). Check_Out r \<noteq> None) recs)"
    using assms(3) by (simp add: recs_def df_def)
  then have c: "filter (\<lambda>(i, r). Check_Out r \<noteq> None) recs \<noteq> []"
    by (metis empty_iff empty_set)
  then have ne: "recs \<noteq> []" by auto
  show ?thesis
    using assms(1) c ne
    by (simp add: get_current_status_def ensure_attendance_file_def Let_def
          recs_def[symmetric] df_def[symmetric])
qed

text \<open>
  After a completed cycle, that is once today's ledger holds a row that is read with the
  employee's id as text and has a check-out time, the path from a recognised name rejects
  every attempt, in any mode, and leaves the state as it was.
\<close>

lemma process_name_after_completed_cycle:
  assumes "files m (strftime_date now) = Some rows" and "i < length rows"
    and "Employee_ID (read_csv m rows ! i) = Str e" and "Check_Out (rows ! i) \<noteq> None"
    and "n \<noteq> ''Unknown''" and "get_employee_by_name m n = Some (e, d)"
  shows "\<exists>res. process_name m mode n now = (m, Inr (Some res)) \<and> status res = ERROR"
proof (cases "in_cooldown m e now")
  case (Some x)
  with assms(5,6) show ?thesis by (simp add: process_name_def)
next
  case None
  obtain m1 st where g: "get_current_status m e now = (m1, st)"
    by (cases "get_current_status m e now")
  from get_current_status_completed[OF assms(1-4)] g
  have st: "m1 = m" "already_checked_in_today st" by simp_all
  show ?thesis
    using assms(5,6) None g st by (simp add: process_name_def)
qed

subsection \<open>Evaluation of the scenarios\<close>

lemmas scenario_defs = m0_def alice_def open_row_def closed_row_def ledger_def day0_def clock_def
  usec_per_day_def strftime_date_def strftime_time_def strptime_def total_seconds_def
  calculate_elapsed_minutes_def integer_reader_def is_digits_def drop_zeros_def

lemmas attendance_defs = manual_attendance_def process_check_in_def process_check_out_def
  get_current_status_def ensure_attendance_file_def no_record_status_def
  get_employee_details_def get_employee_by_name_def Let_def
  MIN_CHECKOUT_MINUTES_def COOLDOWN_SECONDS_def read_csv_def to_csv_def text_of_def

lemma str_int_evals:
  "str_int 5 = ''5''" "str_int 49 = ''49''" "str_int 55 = ''55''" "str_int 60 = ''60''"
  "str_int 61 = ''61''" "str_int 90 = ''90''"
  by (simp_all add: str_int_def str_nat.simps digit_char_def)

lemma manual_check_in_0900: "manual_attendance m0 ''E1'' ''CHECK_IN'' (clock 9 0 0) =
   (ledger [open_row 32400], Inr \<lparr>status = SUCCESS, message = check_mark @ '' Successfully checked in Alice''\<rparr>)"
  by (simp add: attendance_defs scenario_defs)

lemma manual_check_out_0905: "manual_attendance (ledger [open_row 32400]) ''E1'' ''CHECK_OUT'' (clock 9 5 0) =
   (ledger [open_row 32400], Inr \<lparr>status = ERROR, message = ''Cannot check out before 60 minutes. Time elapsed: 5 minutes''\<rparr>)"
  by (simp add: attendance_defs scenario_defs py_int_def str_int_evals)

lemma round2_61_60: "py_round2 (binary64 (61 / 60)) = binary64 (51 / 50)"
  by code_simp

lemma round2_3_2: "py_round2 (binary64 (3 / 2)) = 3 / 2"
  by code_simp

lemma manual_check_out_1001: "manual_attendance (ledger [open_row 32400]) ''E1'' ''CHECK_OUT'' (clock 10 1 0) =
   (ledger [closed_row 32400 36060 (binary64 (51 / 50))],
    Inr \<lparr>status = SUCCESS, message = ''Successfully checked out Alice after 61 minutes''\<rparr>)"
  by (simp add: attendance_defs scenario_defs py_int_def str_int_evals round2_61_60)

lemma manual_check_in_1002: "manual_attendance (ledger [closed_row 32400 36060 (binary64 (51 / 50))]) ''E1'' ''CHECK_IN'' (clock 10 2 0) =
   (ledger [closed_row 32400 36060 (binary64 (51 / 50)), open_row 36120],
    Inr \<lparr>status = SUCCESS, message = check_mark @ '' Successfully checked in Alice''\<rparr>)"
  by (simp add: attendance_defs scenario_defs)

lemma manual_check_in_1003: "manual_attendance (ledger [closed_row 32400 36060 (binary64 (51 / 50)), open_row 36120]) ''E1'' ''CHECK_IN'' (clock 10 3 0) =
   (ledger [closed_row 32400 36060 (binary64 (51 / 50)), open_row 36120, open_row 36180],
    Inr \<lparr>status = SUCCESS, message = check_mark @ '' Successfully checked in Alice''\<rparr>)"
  by (simp add: attendance_defs scenario_defs)

lemmas process_defs = process_attendance_def process_name_def in_cooldown_def set_last_processed_def
  upper_def upper_char_def

lemma recognised_check_out_0900: "process_attendance m0 [''Alice''] ''CHECK_OUT'' (clock 9 0 0) =
   (ledger [], Inr [\<lparr>status = ERROR, message = cross_mark @ '' Alice has not checked in today''\<rparr>])"
  by (simp add: process_defs attendance_defs scenario_defs)

lemma recognised_check_in_090010: "process_attendance (ledger []) [''Alice''] ''CHECK_IN'' (clock 9 0 10) =
   ((ledger [open_row 32410])\<lparr>last_processed := [''E1'' \<mapsto> clock 9 0 10]\<rparr>,
    Inr [\<lparr>status = SUCCESS, message = check_mark @ '' Successfully checked in Alice''\<rparr>])"
  by (simp add: process_defs attendance_defs scenario_defs)

text \<open>
  Claim C3, as stated, fails: a check-out attempt at 09:00:00 for an employee who is not
  checked in is rejected, and the check-in attempt ten seconds later succeeds. Only a
  \<open>SUCCESS\<close> starts the cooldown.
\<close>

theorem cooldown_not_started_by_failed_attempt:
  "snd (process_attendance m0 [''Alice''] ''CHECK_OUT'' (clock 9 0 0)) =
     Inr [\<lparr>status = ERROR, message = cross_mark @ '' Alice has not checked in today''\<rparr>] \<and>
   clock 9 0 10 - clock 9 0 0 < 60000000 \<and>
   snd (process_attendance (fst (process_attendance m0 [''Alice''] ''CHECK_OUT'' (clock 9 0 0)))
          [''Alice''] ''CHECK_IN'' (clock 9 0 10)) =
     Inr [\<lparr>status = SUCCESS, message = check_mark @ '' Successfully checked in Alice''\<rparr>]"
  by (simp add: recognised_check_out_0900 recognised_check_in_090010) (simp add: clock_def)

lemma recognised_check_in_0900: "process_attendance m0 [''Alice''] ''check_in'' (clock 9 0 0) =
   ((ledger [open_row 32400])\<lparr>last_processed := [''E1'' \<mapsto> clock 9 0 0]\<rparr>,
    Inr [\<lparr>status = SUCCESS, message = check_mark @ '' Successfully checked in Alice''\<rparr>])"
  by (simp add: process_defs attendance_defs scenario_defs)

text \<open>
  The amended claim C3 at a concrete input: a check-in at 09:00:00 succeeds, and the
  check-out attempt 10.5 seconds later is told to wait 49 seconds.
\<close>

theorem cooldown_after_success_witness:
  "process_attendance m0 [''Alice''] ''check_in'' (clock 9 0 0) =
     ((ledger [open_row 32400])\<lparr>last_processed := [''E1'' \<mapsto> clock 9 0 0]\<rparr>,
      Inr [\<lparr>status = SUCCESS, message = check_mark @ '' Successfully checked in Alice''\<rparr>]) \<and>
   (clock 9 0 10 + 500000) - clock 9 0 0 < 60000000 \<and>
   process_attendance ((ledger [open_row 32400])\<lparr>last_processed := [''E1'' \<mapsto> clock 9 0 0]\<rparr>)
       [''Alice''] ''CHECK_OUT'' (clock 9 0 10 + 500000) =
     ((ledger [open_row 32400])\<lparr>last_processed := [''E1'' \<mapsto> clock 9 0 0]\<rparr>,
      Inr [\<lparr>status = ERROR,
             message = hourglass @ '' Please wait 49 seconds before trying again''\<rparr>]) \<and>
   process_attendance m0 [''Alice''] ''CHECK_OUT'' (clock 9 0 0) =
     (ledger [], Inr [\<lparr>status = ERROR, message = cross_mark @ '' Alice has not checked in today''\<rparr>]) \<and>
   list_all (\<lambda>r. status r \<noteq> SUCCESS)
     [\<lparr>status = ERROR, message = cross_mark @ '' Alice has not checked in today''\<rparr>] \<and>
   last_processed (ledger []) = last_processed m0"
proof -
  have h2: "status \<lparr>status = SUCCESS, message = check_mark @ '' Successfully checked in Alice''\<rparr>
              = SUCCESS"
    by simp
  have h3: "(clock 9 0 10 + 500000) - clock 9 0 0 < 60000000" by (simp add: clock_def)
  have fl: "\<lfloor>60 - rat_of_int (clock 9 0 10 + 500000 - clock 9 0 0) / 1000000\<rfloor> = 49"
    by (simp add: clock_def floor_eq_iff)
  have h4: "list_all (\<lambda>r. status r \<noteq> SUCCESS)
     [\<lparr>status = ERROR, message = cross_mark @ '' Alice has not checked in today''\<rparr>]"
    by simp
  note A = cooldown_after_success[of m0 "''Alice''" "''check_in''" "clock 9 0 0",
             THEN conjunct1, rule_format,
             OF conjI[OF recognised_check_in_0900 conjI[OF h2 h3]], of "''CHECK_OUT''"]
  note B = cooldown_after_success[of m0 "''Alice''" "''CHECK_OUT''" "clock 9 0 0",
             THEN conjunct2, rule_format,
             OF conjI[OF recognised_check_out_0900 h4]]
  from A B recognised_check_in_0900 recognised_check_out_0900 h3 h4
  show ?thesis by (simp only: fl str_int_evals) simp
qed

text \<open>
  An employee id that the reader takes for a number matches no row that is read back:
  after a successful check-in the status is that of an employee without a row, a
  check-out attempt is answered with "has not checked in today", and a second check-in
  succeeds and leaves two open rows.
\<close>

lemma retyped_id_check_in:
  "process_attendance numbered [''Bob''] ''CHECK_IN'' (clock 9 0 0) =
     (numbered\<lparr>files := [day0 \<mapsto> [bob_row 32400]], last_processed := [''101'' \<mapsto> clock 9 0 0]\<rparr>,
      Inr [\<lparr>status = SUCCESS, message = check_mark @ '' Successfully checked in Bob''\<rparr>])"
  by (simp add: process_defs attendance_defs scenario_defs numbered_def bob_def bob_row_def)

lemma retyped_id_status:
  "get_current_status
       (numbered\<lparr>files := [day0 \<mapsto> [bob_row 32400]], last_processed := [''101'' \<mapsto> clock 9 0 0]\<rparr>)
       ''101'' (clock 9 5 0) =
     (numbered\<lparr>files := [day0 \<mapsto> [bob_row 32400]], last_processed := [''101'' \<mapsto> clock 9 0 0]\<rparr>,
      no_record_status)"
  by (simp add: attendance_defs scenario_defs numbered_def bob_def bob_row_def)

lemma retyped_id_check_out:
  "process_attendance
       (numbered\<lparr>files := [day0 \<mapsto> [bob_row 32400]], last_processed := [''101'' \<mapsto> clock 9 0 0]\<rparr>)
       [''Bob''] ''CHECK_OUT'' (clock 9 5 0) =
     (numbered\<lparr>files := [day0 \<mapsto> [bob_row 32400]], last_processed := [''101'' \<mapsto> clock 9 0 0]\<rparr>,
      Inr [\<lparr>status = ERROR, message = cross_mark @ '' Bob has not checked in today''\<rparr>])"
  by (simp add: process_defs attendance_defs scenario_defs numbered_def bob_def bob_row_def)

lemma retyped_id_second_check_in:
  "process_attendance
       (numbered\<lparr>files := [day0 \<mapsto> [bob_row 32400]], last_processed := [''101'' \<mapsto> clock 9 0 0]\<rparr>)
       [''Bob''] ''CHECK_IN'' (clock 9 5 0) =
     (numbered\<lparr>files := [day0 \<mapsto> [bob_row 32400, bob_row 32700]],
               last_processed := [''101'' \<mapsto> clock 9 5 0]\<rparr>,
      Inr [\<lparr>status = SUCCESS, message = check_mark @ '' Successfully checked in Bob''\<rparr>])"
  by (simp add: process_defs attendance_defs scenario_defs numbered_def bob_def bob_row_def)

text \<open>
  Claim C1 says that once the ledger of a date holds a row of an employee with a
  check-out time, every further check-in or check-out attempt of that employee on that
  date is rejected and changes no row. The code at a concrete input: after a manual
  check-in at 09:00:00 and a manual check-out at 10:01:00 the ledger holds the closed
  row, and the manual check-in at 10:02:00 returns \<open>SUCCESS\<close> and appends an open row.
\<close>

theorem manual_check_in_after_completed_cycle:
  "run_calls m0 [Manual ''E1'' ''CHECK_IN'' (clock 9 0 0), Manual ''E1'' ''CHECK_OUT'' (clock 10 1 0)]
     = ledger [closed_row 32400 36060 (binary64 (51 / 50))] \<and>
   manual_attendance (ledger [closed_row 32400 36060 (binary64 (51 / 50))]) ''E1'' ''CHECK_IN'' (clock 10 2 0)
     = (ledger [closed_row 32400 36060 (binary64 (51 / 50)), open_row 36120],
        Inr \<lparr>status = SUCCESS, message = check_mark @ '' Successfully checked in Alice''\<rparr>)"
  by (simp only: run_calls.simps manual_check_in_0900 manual_check_out_1001 manual_check_in_1002 fst_conv simp_thms)

text \<open>
  Claim C2 says that, from an empty ledger, no sequence of check-in and check-out calls
  leaves two rows of one employee on one date that both have an empty check-out. The
  code at a concrete input: after a completed cycle, two manual check-ins leave two open
  rows of the employee.
\<close>

theorem two_open_rows_after_completed_cycle:
  "run_calls m0 [Manual ''E1'' ''CHECK_IN'' (clock 9 0 0), Manual ''E1'' ''CHECK_OUT'' (clock 10 1 0),
                 Manual ''E1'' ''CHECK_IN'' (clock 10 2 0), Manual ''E1'' ''CHECK_IN'' (clock 10 3 0)]
     = ledger [closed_row 32400 36060 (binary64 (51 / 50)), open_row 36120, open_row 36180] \<and>
   Employee_ID (open_row 36120) = ''E1'' \<and> Check_Out (open_row 36120) = None \<and>
   Employee_ID (open_row 36180) = ''E1'' \<and> Check_Out (open_row 36180) = None"
  by (simp only: run_calls.simps manual_check_in_0900 manual_check_out_1001 manual_check_in_1002 manual_check_in_1003 fst_conv simp_thms) (simp add: open_row_def)

subsection \<open>Hours recorded at check-out\<close>

lemma strftime_time_less: "strftime_time now < 86400"
proof -
  have "0 \<le> now mod 86400000000" "now mod 86400000000 < 86400000000" by simp_all
  then have "(now mod 86400000000) div 1000000 < 86400" by linarith
  then show ?thesis by (simp add: strftime_time_def usec_per_day_def)
qed

lemma hours_between:
  "total_seconds (strptime d t - strptime d cin) / 3600 = rat_of_int (int t - int cin) / 3600"
proof -
  have "strptime d t - strptime d cin = (int t - int cin) * 1000000"
    by (simp add: strptime_def algebra_simps)
  then show ?thesis by (simp add: total_seconds_def)
qed

text \<open>
  Claim C5. After a successful check-out the closed row, at the index the status named,
  holds the check-out time and, as \<open>Total_Hours\<close>, the float of a two-decimal number
  \<open>k / 100\<close> that is nearest to the hours between check-in and check-out (at most half a
  hundredth away). Check-in 09:00:00 with check-out 10:30:00 records 1.5, and with
  check-out 10:01:00 records the float 1.02. Both entry points close a row through
  \<open>process_check_out\<close> only.
\<close>

theorem total_hours_at_check_out:
  "(\<forall>m' r. process_check_out m emp_id now = (m', Inr r) \<and> status r = SUCCESS \<longrightarrow>
      (\<exists>idx df k.
         record_index (snd (get_current_status m emp_id now)) = Some idx \<and>
         files m' (strftime_date now) = Some df \<and> idx < length df \<and>
         Employee_ID (df ! idx) = emp_id \<and>
         Check_Out (df ! idx) = Some (strftime_time now) \<and>
         Total_Hours (df ! idx) = binary64 (of_int k / 100) \<and>
         \<bar>of_int k / 100
            - rat_of_int (int (strftime_time now) - int (Check_In (df ! idx))) / 3600\<bar> \<le> 1 / 200)) \<and>
   process_check_out (ledger [open_row 32400]) ''E1'' (clock 10 30 0) =
     (ledger [closed_row 32400 37800 (3 / 2)],
      Inr \<lparr>status = SUCCESS, message = ''Successfully checked out Alice after 90 minutes''\<rparr>) \<and>
   process_check_out (ledger [open_row 32400]) ''E1'' (clock 10 1 0) =
     (ledger [closed_row 32400 36060 (binary64 (102 / 100))],
      Inr \<lparr>status = SUCCESS, message = ''Successfully checked out Alice after 61 minutes''\<rparr>)"
proof (intro conjI allI impI)
  fix m' r
  assume a: "process_check_out m emp_id now = (m', Inr r) \<and> status r = SUCCESS"
  obtain m1 st where g: "get_current_status m emp_id now = (m1, st)"
    by (cases "get_current_status m emp_id now")
  define d where "d = strftime_date now"
  define t where "t = strftime_time now"
  from process_check_out_success[OF conjunct1[OF a] conjunct2[OF a] g]
  obtain idx cin rows where c: "is_checked_in st" "\<not> elapsed_minutes st < 60"
    and v: "record_index st = Some idx" "check_in_time st = Some cin" "files m1 d = Some rows"
    and f: "files m' = (files m1)(d \<mapsto>
             to_csv ((read_csv m1 rows)[idx := (read_csv m1 rows ! idx)\<lparr>Check_Out := Some t,
                  Total_Hours := py_round2 (binary64 (total_seconds
                     (strptime d t - strptime d cin) / 3600))\<rparr>]))"
    unfolding d_def t_def by blast
  from get_current_status_checked_in[OF g c(1)] v
  have w: "m1 = m" "idx < length rows" "Employee_ID (read_csv m rows ! idx) = Str emp_id"
    "cin = Check_In (rows ! idx)"
    "elapsed_minutes st = calculate_elapsed_minutes d cin now"
    unfolding d_def by auto
  define s where "s = int t - int cin"
  from c(2) w(5) have "int cin + 3600 \<le> int t"
    unfolding d_def t_def by (intro elapsed_seconds) simp
  then have spos: "0 < s" by (simp add: s_def)
  have "int t < 86400" using strftime_time_less[of now] by (simp add: t_def)
  then have sless: "s < 2 ^ 53" by (simp add: s_def)
  define k where "k = round_half_even (binary64 (of_int s / 3600) * 100)"
  have near: "\<bar>of_int k / 100 - rat_of_int s / 3600\<bar> \<le> 1 / 200"
    unfolding k_def by (rule round2_hours_nearest[OF spos sless])
  define x where "x = (read_csv m rows ! idx)\<lparr>Check_Out := Some t,
                  Total_Hours := py_round2 (binary64 (total_seconds
                     (strptime d t - strptime d cin) / 3600))\<rparr>"
  define df' where "df' = to_csv ((read_csv m rows)[idx := x])"
  have 1: "files m' d = Some df'" using f by (simp add: df'_def x_def w(1))
  have 2: "idx < length df'" using w(2) by (simp add: df'_def)
  have i2: "idx < length ((read_csv m rows)[idx := x])" using w(2) by simp
  have nx: "(read_csv m rows)[idx := x] ! idx = x" using w(2) by simp
  have 4: "Total_Hours (df' ! idx) = binary64 (of_int k / 100)"
    unfolding df'_def to_csv_nth(4)[OF i2] nx
    by (simp add: x_def hours_between py_round2_def k_def s_def)
  have 5: "Check_In (df' ! idx) = cin"
    unfolding df'_def to_csv_nth(2)[OF i2] nx
    using read_csv_nth(1)[OF w(2), of m] by (simp add: x_def w(4))
  have 6: "Employee_ID (df' ! idx) = emp_id"
    unfolding df'_def to_csv_nth(1)[OF i2] nx
    by (simp add: x_def w(3) text_of_def)
  have 7: "Check_Out (df' ! idx) = Some t"
    unfolding df'_def to_csv_nth(3)[OF i2] nx by (simp add: x_def)
  have "record_index (snd (get_current_status m emp_id now)) = Some idx" using g v by simp
  with 1 2 4 5 6 7 near
  show "\<exists>idx df k.
         record_index (snd (get_current_status m emp_id now)) = Some idx \<and>
         files m' (strftime_date now) = Some df \<and> idx < length df \<and>
         Employee_ID (df ! idx) = emp_id \<and>
         Check_Out (df ! idx) = Some (strftime_time now) \<and>
         Total_Hours (df ! idx) = binary64 (of_int k / 100) \<and>
         \<bar>of_int k / 100
            - rat_of_int (int (strftime_time now) - int (Check_In (df ! idx))) / 3600\<bar> \<le> 1 / 200"
    unfolding d_def[symmetric] t_def[symmetric] s_def by blast
next
  show "process_check_out (ledger [open_row 32400]) ''E1'' (clock 10 30 0) =
     (ledger [closed_row 32400 37800 (3 / 2)],
      Inr \<lparr>status = SUCCESS, message = ''Successfully checked out Alice after 90 minutes''\<rparr>)"
    by (simp add: attendance_defs scenario_defs py_int_def str_int_evals round2_3_2)
next
  show "process_check_out (ledger [open_row 32400]) ''E1'' (clock 10 1 0) =
     (ledger [closed_row 32400 36060 (binary64 (102 / 100))],
      Inr \<lparr>status = SUCCESS, message = ''Successfully checked out Alice after 61 minutes''\<rparr>)"
    by (simp add: attendance_defs scenario_defs py_int_def str_int_evals round2_61_60)
qed

text \<open>
  Claim C5 at a concrete input: the check-out at 10:01:00 after a check-in at 09:00:00.
\<close>

theorem total_hours_at_check_out_witness:
  "process_check_out (ledger [open_row 32400]) ''E1'' (clock 10 1 0) =
     (ledger [closed_row 32400 36060 (binary64 (102 / 100))],
      Inr \<lparr>status = SUCCESS, message = ''Successfully checked out Alice after 61 minutes''\<rparr>) \<and>
   (\<exists>idx df k.
      record_index (snd (get_current_status (ledger [open_row 32400]) ''E1'' (clock 10 1 0))) = Some idx \<and>
      files (ledger [closed_row 32400 36060 (binary64 (102 / 100))]) (strftime_date (clock 10 1 0)) = Some df \<and>
      idx < length df \<and> Employee_ID (df ! idx) = ''E1'' \<and>
      Check_Out (df ! idx) = Some (strftime_time (clock 10 1 0)) \<and>
      Total_Hours (df ! idx) = binary64 (of_int k / 100) \<and>
      \<bar>of_int k / 100
         - rat_of_int (int (strftime_time (clock 10 1 0)) - int (Check_In (df ! idx))) / 3600\<bar> \<le> 1 / 200)"
proof -
  note T = total_hours_at_check_out[of "ledger [open_row 32400]" "''E1''" "clock 10 1 0"]
  from T have run: "process_check_out (ledger [open_row 32400]) ''E1'' (clock 10 1 0) =
     (ledger [closed_row 32400 36060 (binary64 (102 / 100))],
      Inr \<lparr>status = SUCCESS, message = ''Successfully checked out Alice after 61 minutes''\<rparr>)"
    by (rule conjunct2[THEN conjunct2])
  have ok: "status \<lparr>status = SUCCESS, message = ''Successfully checked out Alice after 61 minutes''\<rparr> = SUCCESS"
    by simp
  from conjunct1[OF T, rule_format, OF conjI[OF run ok]] run
  show ?thesis by (intro conjI)
qed

subsection \<open>Minimum time before check-out\<close>

lemma process_check_out_early:
  assumes "get_current_status m e now = (m1, st)" and "is_checked_in st"
    and "elapsed_minutes st < 60"
  shows "process_check_out m e now =
     (m, Inr \<lparr>status = ERROR,
              message = ''Cannot check out before 60 minutes. Time elapsed: ''
                @ str_int (py_int (elapsed_minutes st)) @ '' minutes''\<rparr>)"
proof -
  from get_current_status_checked_in[OF assms(1,2)] have "m1 = m" by blast
  with assms show ?thesis
    by (simp add: process_check_out_def Let_def MIN_CHECKOUT_MINUTES_def str_int_evals)
qed

lemma process_name_check_out:
  assumes "n \<noteq> ''Unknown''" and "get_employee_by_name m n = Some (e, d)"
    and "in_cooldown m e now = None" and "get_current_status m e now = (m, st)"
    and "is_checked_in st" and "\<not> already_checked_in_today st"
    and "mode = ''CHECK_OUT'' \<or> mode = ''CHECK OUT''"
  shows "process_name m mode n now =
     (if elapsed_minutes st < 60
      then (m, Inr (Some \<lparr>status = ERROR,
                 message = hourglass @ '' Must wait ''
                   @ str_int (60 - py_int (elapsed_minutes st))
                   @ '' minutes before check-out (Minimum 60 minutes required)''\<rparr>))
      else (set_last_processed (fst (process_check_out m e now)) e now
              (snd (process_check_out m e now)),
            map_sum id Some (snd (process_check_out m e now))))"
proof -
  have nin: "\<not> (mode = ''CHECK_IN'' \<or> mode = ''CHECK IN'')" using assms(7) by auto
  show ?thesis
    using assms(1-6) nin assms(7)
    by (simp add: process_name_def MIN_CHECKOUT_MINUTES_def str_int_evals split: prod.splits)
qed

text \<open>
  Claim C4, as amended. For an employee whom \<open>get_current_status\<close> reports as checked
  in, which it does for the latest row of today's ledger that is read with the employee's
  id as text when that row has no check-out time: a check-out attempt, manual or from a
  recognised name, succeeds only when at least 60 minutes have elapsed since check-in.
  Below 60 minutes the attempt is rejected and nothing changes; the message of
  \<open>manual_attendance\<close> states the whole minutes elapsed, and the message of
  \<open>process_attendance\<close>, when no cooldown is active, states 60 minus the whole minutes
  elapsed.
\<close>

theorem check_out_minimum_duration:
  assumes "is_checked_in (snd (get_current_status m emp_id now))"
  shows
  "(\<forall>m' r. manual_attendance m emp_id ''CHECK_OUT'' now = (m', Inr r) \<and> status r = SUCCESS
        \<longrightarrow> 60 \<le> elapsed_minutes (snd (get_current_status m emp_id now))) \<and>
   (\<forall>n details mode m' r.
        get_employee_by_name m n = Some (emp_id, details) \<and>
        (upper mode = ''CHECK_OUT'' \<or> upper mode = ''CHECK OUT'') \<and>
        process_attendance m [n] mode now = (m', Inr [r]) \<and> status r = SUCCESS
        \<longrightarrow> 60 \<le> elapsed_minutes (snd (get_current_status m emp_id now))) \<and>
   (elapsed_minutes (snd (get_current_status m emp_id now)) < 60 \<and>
    map_of (employees m) emp_id \<noteq> None
        \<longrightarrow> manual_attendance m emp_id ''CHECK_OUT'' now =
              (m, Inr \<lparr>status = ERROR,
                       message = ''Cannot check out before 60 minutes. Time elapsed: ''
                         @ str_int (py_int (elapsed_minutes (snd (get_current_status m emp_id now))))
                         @ '' minutes''\<rparr>)) \<and>
   (\<forall>n details mode.
        elapsed_minutes (snd (get_current_status m emp_id now)) < 60 \<and>
        n \<noteq> ''Unknown'' \<and> get_employee_by_name m n = Some (emp_id, details) \<and>
        in_cooldown m emp_id now = None \<and>
        (upper mode = ''CHECK_OUT'' \<or> upper mode = ''CHECK OUT'')
        \<longrightarrow> process_attendance m [n] mode now =
              (m, Inr [\<lparr>status = ERROR,
                        message = hourglass @ '' Must wait ''
                          @ str_int (60 - py_int (elapsed_minutes (snd (get_current_status m emp_id now))))
                          @ '' minutes before check-out (Minimum 60 minutes required)''\<rparr>]))"
proof -
  obtain m1 st where g: "get_current_status m emp_id now = (m1, st)"
    by (cases "get_current_status m emp_id now")
  with assms have ci: "is_checked_in st" by simp
  from get_current_status_checked_in[OF g ci] have m1: "m1 = m" and na: "\<not> already_checked_in_today st"
    by blast+
  note g' = g[unfolded m1]
  have A: "60 \<le> elapsed_minutes st"
    if "manual_attendance m emp_id ''CHECK_OUT'' now = (m', Inr r)" "status r = SUCCESS" for m' r
  proof -
    from that have "process_check_out m emp_id now = (m', Inr r)"
      by (auto simp: manual_attendance_def split: if_splits)
    from process_check_out_success[OF this that(2) g'] show ?thesis by simp
  qed
  have B: "60 \<le> elapsed_minutes st"
    if "get_employee_by_name m n = Some (emp_id, details)"
      "upper mode = ''CHECK_OUT'' \<or> upper mode = ''CHECK OUT''"
      "process_attendance m [n] mode now = (m', Inr [r])" "status r = SUCCESS"
    for n details mode m' r
  proof (rule ccontr)
    assume "\<not> 60 \<le> elapsed_minutes st"
    then have lt: "elapsed_minutes st < 60" by simp
    from that(3) have pn: "process_name m (upper mode) n now = (m', Inr (Some r))"
      by (auto simp: process_attendance_def split: prod.splits sum.splits option.splits)
    from process_name_SUCCESS[OF pn that(4)] have n: "n \<noteq> ''Unknown''" by blast
    show False
    proof (cases "in_cooldown m emp_id now")
      case None
      from process_name_check_out[OF n that(1) None g' ci na that(2)] lt pn that(4)
      show False by auto
    next
      case (Some x)
      with pn n that(1,4) show False by (auto simp: process_name_def)
    qed
  qed
  have C: "manual_attendance m emp_id ''CHECK_OUT'' now =
              (m, Inr \<lparr>status = ERROR,
                       message = ''Cannot check out before 60 minutes. Time elapsed: ''
                         @ str_int (py_int (elapsed_minutes st)) @ '' minutes''\<rparr>)"
    if "elapsed_minutes st < 60" "map_of (employees m) emp_id \<noteq> None"
    using process_check_out_early[OF g' ci that(1)] that(2) by (simp add: manual_attendance_def)
  have D: "process_attendance m [n] mode now =
              (m, Inr [\<lparr>status = ERROR,
                        message = hourglass @ '' Must wait ''
                          @ str_int (60 - py_int (elapsed_minutes st))
                          @ '' minutes before check-out (Minimum 60 minutes required)''\<rparr>])"
    if "elapsed_minutes st < 60" "n \<noteq> ''Unknown''"
      "get_employee_by_name m n = Some (emp_id, details)" "in_cooldown m emp_id now = None"
      "upper mode = ''CHECK_OUT'' \<or> upper mode = ''CHECK OUT''"
    for n details mode
    using process_name_check_out[OF that(2,3,4) g' ci na that(5)] that(1)
    by (simp add: process_attendance_def)
  show ?thesis
    unfolding g snd_conv using A B C D by blast
qed

lemma status_0905:
  "get_current_status (ledger [open_row 32400]) ''E1'' (clock 9 5 0) =
     (ledger [open_row 32400],
      \<lparr>is_checked_in = True, check_in_time = Some 32400, elapsed_minutes = 5,
       record_index = Some 0, has_incomplete_record = True,
       already_checked_in_today = False, last_check_out = None\<rparr>)"
  by (simp add: attendance_defs scenario_defs)

lemma status_1001:
  "get_current_status (ledger [open_row 32400]) ''E1'' (clock 10 1 0) =
     (ledger [open_row 32400],
      \<lparr>is_checked_in = True, check_in_time = Some 32400, elapsed_minutes = 61,
       record_index = Some 0, has_incomplete_record = True,
       already_checked_in_today = False, last_check_out = None\<rparr>)"
  by (simp add: attendance_defs scenario_defs)

lemma alice_by_name:
  "get_employee_by_name (ledger rows) ''Alice'' = Some (''E1'', alice)"
  "map_of (employees (ledger rows)) ''E1'' = Some alice"
  "in_cooldown (ledger rows) ''E1'' t = None"
  by (simp_all add: get_employee_by_name_def ledger_def m0_def alice_def in_cooldown_def)

lemma recognised_check_out_1001:
  "process_attendance (ledger [open_row 32400]) [''Alice''] ''CHECK_OUT'' (clock 10 1 0) =
     ((ledger [closed_row 32400 36060 (binary64 (51 / 50))])\<lparr>last_processed := [''E1'' \<mapsto> clock 10 1 0]\<rparr>,
      Inr [\<lparr>status = SUCCESS, message = ''Successfully checked out Alice after 61 minutes''\<rparr>])"
  by (simp add: process_defs attendance_defs scenario_defs py_int_def str_int_evals round2_61_60)

lemma upper_CHECK_OUT: "upper ''CHECK_OUT'' = ''CHECK_OUT''"
  by (simp add: upper_def upper_char_def)

text \<open>
  Claim C4, as stated, fails: with check-in at 09:00:00, the manual check-out attempt at
  09:05:00 is rejected with a message that states the 5 minutes elapsed and nowhere the
  55 minutes that remain.
\<close>

theorem manual_rejection_reports_elapsed_minutes:
  "is_checked_in (snd (get_current_status (ledger [open_row 32400]) ''E1'' (clock 9 5 0))) \<and>
   elapsed_minutes (snd (get_current_status (ledger [open_row 32400]) ''E1'' (clock 9 5 0))) = 5 \<and>
   manual_attendance (ledger [open_row 32400]) ''E1'' ''CHECK_OUT'' (clock 9 5 0) =
     (ledger [open_row 32400],
      Inr \<lparr>status = ERROR,
           message = ''Cannot check out before 60 minutes. Time elapsed: 5 minutes''\<rparr>) \<and>
   \<not> sublist ''55'' ''Cannot check out before 60 minutes. Time elapsed: 5 minutes''"
  by (simp add: status_0905 manual_check_out_0905) (simp add: sublist_Cons_right)

text \<open>
  The amended claim C4 at concrete inputs: check-in at 09:00:00, attempts at 09:05:00
  through both entry points, and the manual check-out at 10:01:00 that succeeds.
\<close>

theorem check_out_minimum_duration_witness:
  "is_checked_in (snd (get_current_status (ledger [open_row 32400]) ''E1'' (clock 9 5 0))) \<and>
   elapsed_minutes (snd (get_current_status (ledger [open_row 32400]) ''E1'' (clock 9 5 0))) < 60 \<and>
   manual_attendance (ledger [open_row 32400]) ''E1'' ''CHECK_OUT'' (clock 9 5 0) =
     (ledger [open_row 32400],
      Inr \<lparr>status = ERROR,
           message = ''Cannot check out before 60 minutes. Time elapsed: 5 minutes''\<rparr>) \<and>
   process_attendance (ledger [open_row 32400]) [''Alice''] ''CHECK_OUT'' (clock 9 5 0) =
     (ledger [open_row 32400],
      Inr [\<lparr>status = ERROR,
            message = hourglass
              @ '' Must wait 55 minutes before check-out (Minimum 60 minutes required)''\<rparr>]) \<and>
   is_checked_in (snd (get_current_status (ledger [open_row 32400]) ''E1'' (clock 10 1 0))) \<and>
   manual_attendance (ledger [open_row 32400]) ''E1'' ''CHECK_OUT'' (clock 10 1 0) =
     (ledger [closed_row 32400 36060 (binary64 (51 / 50))],
      Inr \<lparr>status = SUCCESS, message = ''Successfully checked out Alice after 61 minutes''\<rparr>) \<and>
   process_attendance (ledger [open_row 32400]) [''Alice''] ''CHECK_OUT'' (clock 10 1 0) =
     ((ledger [closed_row 32400 36060 (binary64 (51 / 50))])\<lparr>last_processed := [''E1'' \<mapsto> clock 10 1 0]\<rparr>,
      Inr [\<lparr>status = SUCCESS, message = ''Successfully checked out Alice after 61 minutes''\<rparr>]) \<and>
   60 \<le> elapsed_minutes (snd (get_current_status (ledger [open_row 32400]) ''E1'' (clock 10 1 0)))"
proof -
  have c1: "is_checked_in (snd (get_current_status (ledger [open_row 32400]) ''E1'' (clock 9 5 0)))"
    by (simp add: status_0905)
  have c2: "is_checked_in (snd (get_current_status (ledger [open_row 32400]) ''E1'' (clock 10 1 0)))"
    unfolding status_1001 by simp
  have e1: "elapsed_minutes (snd (get_current_status (ledger [open_row 32400]) ''E1'' (clock 9 5 0))) < 60"
    by (simp add: status_0905)
  note W1 = check_out_minimum_duration[OF c1]
  note W2 = check_out_minimum_duration[OF c2]
  have a: "manual_attendance (ledger [open_row 32400]) ''E1'' ''CHECK_OUT'' (clock 9 5 0) =
     (ledger [open_row 32400],
      Inr \<lparr>status = ERROR,
           message = ''Cannot check out before 60 minutes. Time elapsed: ''
             @ str_int (py_int (elapsed_minutes (snd (get_current_status (ledger [open_row 32400]) ''E1'' (clock 9 5 0)))))
             @ '' minutes''\<rparr>)"
    using W1[THEN conjunct2, THEN conjunct2, THEN conjunct1] e1 by (simp add: alice_by_name)
  have b: "process_attendance (ledger [open_row 32400]) [''Alice''] ''CHECK_OUT'' (clock 9 5 0) =
     (ledger [open_row 32400],
      Inr [\<lparr>status = ERROR,
            message = hourglass @ '' Must wait ''
              @ str_int (60 - py_int (elapsed_minutes (snd (get_current_status (ledger [open_row 32400]) ''E1'' (clock 9 5 0)))))
              @ '' minutes before check-out (Minimum 60 minutes required)''\<rparr>])"
    using W1[THEN conjunct2, THEN conjunct2, THEN conjunct2, rule_format,
             of "''Alice''" alice "''CHECK_OUT''"] e1
    by (simp add: alice_by_name upper_CHECK_OUT)
  have ok: "status \<lparr>status = SUCCESS, message = ''Successfully checked out Alice after 61 minutes''\<rparr> = SUCCESS"
    by simp
  have d: "60 \<le> elapsed_minutes (snd (get_current_status (ledger [open_row 32400]) ''E1'' (clock 10 1 0)))"
    using W2[THEN conjunct1, rule_format, OF conjI[OF manual_check_out_1001 ok]] .
  have d2: "60 \<le> elapsed_minutes (snd (get_current_status (ledger [open_row 32400]) ''E1'' (clock 10 1 0)))"
    using W2[THEN conjunct2, THEN conjunct1, rule_format, of "''Alice''" alice "''CHECK_OUT''",
             OF conjI[OF alice_by_name(1) conjI[OF disjI1[OF upper_CHECK_OUT]
                  conjI[OF recognised_check_out_1001 ok]]]] .
  from a b show ?thesis
    using c1 c2 e1 d d2 manual_check_out_1001 recognised_check_out_1001
    by (simp add: status_0905 py_int_def str_int_evals)
qed

subsection \<open>Deleting a ledger\<close>

text \<open>
  Claim C6. The class defines neither of the two methods that the administration page
  calls to delete a ledger: the attribute lookup fails for both names.
\<close>

theorem ledger_deletion_methods_missing:
  "getattr_AttendanceManager ''delete_todays_attendance'' =
     Inl (AttributeError ([CHR 0x27] @ ''AttendanceManager'' @ [CHR 0x27]
            @ '' object has no attribute '' @ [CHR 0x27] @ ''delete_todays_attendance'' @ [CHR 0x27])) \<and>
   getattr_AttendanceManager ''delete_attendance_by_date'' =
     Inl (AttributeError ([CHR 0x27] @ ''AttendanceManager'' @ [CHR 0x27]
            @ '' object has no attribute '' @ [CHR 0x27] @ ''delete_attendance_by_date'' @ [CHR 0x27]))"
  by (simp add: getattr_AttendanceManager_def AttendanceManager_attributes_def)

section \<open>Properties of the face utilities\<close>

lemma thresh_value: "EYE_AR_THRESH = 5404319552844595 / 18014398509481984"
  unfolding EYE_AR_THRESH_def by code_simp

lemma tolerance_value: "binary64 (3 / 5) = 5404319552844595 / 9007199254740992"
  by code_simp


subsection \<open>Registering a face\<close>

lemma add_known_face_False:
  "\<not> snd (add_known_face L fu p nm) \<Longrightarrow> fst (add_known_face L fu p nm) = fu"
  by (auto simp: add_known_face_def split: option.splits sum.splits list.splits)

lemma index_of_True_append:
  "True \<notin> set bs \<Longrightarrow> index_of_True (bs @ [True]) = Some (length bs)"
proof -
  assume "True \<notin> set bs"
  then have "takeWhile (\<lambda>b. \<not> b) (bs @ [True]) = bs"
    by (induction bs) auto
  then show ?thesis by (simp add: index_of_True_def)
qed

text \<open>
  Claim C7, as amended. For an image file that can be read: when face detection does not
  find exactly one face, \<open>register_new_face\<close> returns \<open>False\<close> and changes nothing. When
  it finds exactly one face, the image is saved under the path made of the directory and
  the name. If the save raises, as for a name whose path cannot be written, the result
  is \<open>False\<close> and nothing has changed. If the save succeeds, the outcome is that of
  \<open>add_known_face\<close> on the saved copy: if the copy yields an encoding, the result is
  \<open>True\<close>, the first encoding of the copy and the name are appended to the gallery, and a
  face within tolerance of that encoding, matched by no earlier entry, is labelled with
  the name at once; if the copy yields no encoding, the result is \<open>False\<close>. Whenever the
  result is \<open>False\<close>, the two lists of the gallery are unchanged.
\<close>

theorem register_new_face_outcomes:
  assumes "disk fu image_path = Some img" and "cvtColor L img = Inr rgb"
    and "face_locations L (to_uint8 L rgb) = Inr locations"
  shows
  "(length locations \<noteq> 1 \<longrightarrow> register_new_face L fu image_path nm = (fu, False)) \<and>
   (\<forall>e.
      length locations = 1 \<and>
      save_image L (os_path_join (known_faces_dir fu) (nm @ ''.jpg'')) (to_uint8 L rgb) = Inl e
      \<longrightarrow> register_new_face L fu image_path nm = (fu, False)) \<and>
   (\<forall>saved rgb2 enc encs.
      length locations = 1 \<and>
      save_image L (os_path_join (known_faces_dir fu) (nm @ ''.jpg'')) (to_uint8 L rgb) = Inr saved \<and>
      cvtColor L saved = Inr rgb2 \<and>
      face_encodings L (to_uint8 L rgb2) None = Inr (enc # encs)
      \<longrightarrow> register_new_face L fu image_path nm =
            (fu\<lparr>disk := (disk fu)(os_path_join (known_faces_dir fu) (nm @ ''.jpg'') \<mapsto> saved),
                 known_face_encodings := known_face_encodings fu @ [enc],
                 known_face_names := known_face_names fu @ [nm]\<rparr>, True) \<and>
          (\<forall>probe. length (known_face_encodings fu) = length (known_face_names fu) \<and>
              (\<forall>k \<in> set (known_face_encodings fu). \<not> face_distance L k probe \<le> binary64 (6 / 10)) \<and>
              face_distance L enc probe \<le> binary64 (6 / 10)
              \<longrightarrow> match_face L (fst (register_new_face L fu image_path nm)) probe = Inr nm)) \<and>
   (\<forall>saved rgb2.
      length locations = 1 \<and>
      save_image L (os_path_join (known_faces_dir fu) (nm @ ''.jpg'')) (to_uint8 L rgb) = Inr saved \<and>
      cvtColor L saved = Inr rgb2 \<and>
      face_encodings L (to_uint8 L rgb2) None = Inr []
      \<longrightarrow> snd (register_new_face L fu image_path nm) = False) \<and>
   (\<not> snd (register_new_face L fu image_path nm)
      \<longrightarrow> known_face_encodings (fst (register_new_face L fu image_path nm)) = known_face_encodings fu \<and>
          known_face_names (fst (register_new_face L fu image_path nm)) = known_face_names fu)"
proof (intro conjI allI impI)
  assume "length locations \<noteq> 1"
  with assms show "register_new_face L fu image_path nm = (fu, False)"
    by (simp add: register_new_face_def)
next
  fix e
  assume "length locations = 1 \<and>
      save_image L (os_path_join (known_faces_dir fu) (nm @ ''.jpg'')) (to_uint8 L rgb) = Inl e"
  with assms show "register_new_face L fu image_path nm = (fu, False)"
    by (simp add: register_new_face_def Let_def)
next
  fix saved rgb2 enc encs
  assume a: "length locations = 1 \<and>
      save_image L (os_path_join (known_faces_dir fu) (nm @ ''.jpg'')) (to_uint8 L rgb) = Inr saved \<and>
      cvtColor L saved = Inr rgb2 \<and>
      face_encodings L (to_uint8 L rgb2) None = Inr (enc # encs)"
  with assms show r: "register_new_face L fu image_path nm =
            (fu\<lparr>disk := (disk fu)(os_path_join (known_faces_dir fu) (nm @ ''.jpg'') \<mapsto> saved),
                 known_face_encodings := known_face_encodings fu @ [enc],
                 known_face_names := known_face_names fu @ [nm]\<rparr>, True)"
    by (simp add: register_new_face_def add_known_face_def Let_def)
  fix probe
  assume b: "length (known_face_encodings fu) = length (known_face_names fu) \<and>
              (\<forall>k \<in> set (known_face_encodings fu). \<not> face_distance L k probe \<le> binary64 (6 / 10)) \<and>
              face_distance L enc probe \<le> binary64 (6 / 10)"
  define bs where "bs = map (\<lambda>k. face_distance L k probe \<le> binary64 (6 / 10)) (known_face_encodings fu)"
  have nb: "True \<notin> set bs" using b by (auto simp: bs_def)
  have lb: "length bs = length (known_face_names fu)" using b by (simp add: bs_def)
  have "compare_faces L (known_face_encodings fu @ [enc]) probe (binary64 (6 / 10)) = bs @ [True]"
    using b by (simp add: compare_faces_def bs_def)
  then show "match_face L (fst (register_new_face L fu image_path nm)) probe = Inr nm"
    using index_of_True_append[OF nb] lb
    by (simp add: r match_face_def Let_def)
next
  fix saved rgb2
  assume a: "length locations = 1 \<and>
      save_image L (os_path_join (known_faces_dir fu) (nm @ ''.jpg'')) (to_uint8 L rgb) = Inr saved \<and>
      cvtColor L saved = Inr rgb2 \<and>
      face_encodings L (to_uint8 L rgb2) None = Inr []"
  with assms show "snd (register_new_face L fu image_path nm) = False"
    by (simp add: register_new_face_def add_known_face_def Let_def)
next
  assume n: "\<not> snd (register_new_face L fu image_path nm)"
  from n assms
  have "fst (register_new_face L fu image_path nm) = fu \<or>
        (\<exists>saved. fst (register_new_face L fu image_path nm)
           = fu\<lparr>disk := (disk fu)(os_path_join (known_faces_dir fu) (nm @ ''.jpg'') \<mapsto> saved)\<rparr>)"
    by (auto simp: register_new_face_def Let_def add_known_face_False split: sum.splits if_splits)
  then show "known_face_encodings (fst (register_new_face L fu image_path nm)) = known_face_encodings fu"
    "known_face_names (fst (register_new_face L fu image_path nm)) = known_face_names fu"
    by auto
qed

lemmas face_scenario_defs = toy_lib_def lossy_lib_def failing_lib_def portrait_def gray_frame_def
  float_frame_def group_photo_def fu0_def to_uint8_def os_path_join_def in_known_faces_def

text \<open>
  Claim C7, as stated, fails: an image in which exactly one face is detected is rejected
  when the name gives a path that cannot be written (a name with a slash, for a
  directory without subdirectories), and when no face is found in the copy that was
  saved and read back.
\<close>

theorem register_new_face_one_face_rejected:
  "disk fu0 ''upload.jpg'' = Some portrait \<and>
   cvtColor toy_lib portrait = Inr portrait \<and>
   face_locations toy_lib (to_uint8 toy_lib portrait) = Inr [0] \<and>
   register_new_face toy_lib fu0 ''upload.jpg'' ''A/B'' = (fu0, False) \<and>
   face_locations lossy_lib (to_uint8 lossy_lib portrait) = Inr [0] \<and>
   register_new_face lossy_lib fu0 ''upload.jpg'' ''Bob'' =
     (fu0\<lparr>disk := (disk fu0)(''known_faces/Bob.jpg'' \<mapsto> portrait\<lparr>pixels := 0\<rparr>)\<rparr>, False)"
  by (simp add: register_new_face_def add_known_face_def face_scenario_defs Let_def)

text \<open>
  The amended claim C7 at concrete inputs: a picture of two faces is rejected; a portrait
  with one face is rejected under a name that cannot be written, is registered as Bob
  after Ann, the face being labelled Bob then, and is rejected when its saved copy shows
  no face.
\<close>

theorem register_new_face_outcomes_witness:
  "disk fu0 ''group.jpg'' = Some group_photo \<and>
   cvtColor toy_lib group_photo = Inr group_photo \<and>
   face_locations toy_lib (to_uint8 toy_lib group_photo) = Inr [0, 1] \<and>
   length [0::nat, 1] \<noteq> 1 \<and>
   register_new_face toy_lib fu0 ''group.jpg'' ''Bob'' = (fu0, False) \<and>
   disk fu0 ''upload.jpg'' = Some portrait \<and>
   cvtColor toy_lib portrait = Inr portrait \<and>
   face_locations toy_lib (to_uint8 toy_lib portrait) = Inr [0] \<and>
   length [0::nat] = 1 \<and>
   save_image toy_lib (os_path_join (known_faces_dir fu0) (''A/B'' @ ''.jpg'')) (to_uint8 toy_lib portrait)
     = Inl (FileNotFoundError ''known_faces/A/B.jpg'') \<and>
   register_new_face toy_lib fu0 ''upload.jpg'' ''A/B'' = (fu0, False) \<and>
   save_image toy_lib (os_path_join (known_faces_dir fu0) (''Bob'' @ ''.jpg'')) (to_uint8 toy_lib portrait)
     = Inr portrait \<and>
   face_encodings toy_lib (to_uint8 toy_lib portrait) None = Inr [0] \<and>
   register_new_face toy_lib fu0 ''upload.jpg'' ''Bob'' =
     (fu0\<lparr>disk := (disk fu0)(''known_faces/Bob.jpg'' \<mapsto> portrait),
          known_face_encodings := [7, 0], known_face_names := [''Ann'', ''Bob'']\<rparr>, True) \<and>
   match_face toy_lib (fst (register_new_face toy_lib fu0 ''upload.jpg'' ''Bob'')) 0 = Inr ''Bob'' \<and>
   face_locations lossy_lib (to_uint8 lossy_lib portrait) = Inr [0] \<and>
   save_image lossy_lib (os_path_join (known_faces_dir fu0) (''Bob'' @ ''.jpg'')) (to_uint8 lossy_lib portrait)
     = Inr (portrait\<lparr>pixels := 0\<rparr>) \<and>
   face_encodings lossy_lib (to_uint8 lossy_lib (portrait\<lparr>pixels := 0\<rparr>)) None = Inr [] \<and>
   snd (register_new_face lossy_lib fu0 ''upload.jpg'' ''Bob'') = False \<and>
   known_face_encodings (fst (register_new_face lossy_lib fu0 ''upload.jpg'' ''Bob'')) = [7] \<and>
   known_face_names (fst (register_new_face lossy_lib fu0 ''upload.jpg'' ''Bob'')) = [''Ann'']"
proof -
  have g1: "disk fu0 ''group.jpg'' = Some group_photo" by (simp add: fu0_def)
  have g2: "cvtColor toy_lib group_photo = Inr group_photo" by (simp add: toy_lib_def)
  have g3: "face_locations toy_lib (to_uint8 toy_lib group_photo) = Inr [0, 1]"
    by (simp add: face_scenario_defs upt_rec)
  have g4: "length [0::nat, 1] \<noteq> 1" by simp
  note G = register_new_face_outcomes[OF g1 g2 g3, of "''Bob''", THEN conjunct1, rule_format, OF g4]
  have h1: "disk fu0 ''upload.jpg'' = Some portrait" by (simp add: fu0_def)
  have h2: "cvtColor toy_lib portrait = Inr portrait" by (simp add: toy_lib_def)
  have h3: "face_locations toy_lib (to_uint8 toy_lib portrait) = Inr [0]"
    by (simp add: face_scenario_defs)
  have s1: "length [0::nat] = 1 \<and>
      save_image toy_lib (os_path_join (known_faces_dir fu0) (''A/B'' @ ''.jpg'')) (to_uint8 toy_lib portrait)
        = Inl (FileNotFoundError ''known_faces/A/B.jpg'')"
    by (simp add: face_scenario_defs)
  note S = register_new_face_outcomes[OF h1 h2 h3, of "''A/B''",
             THEN conjunct2, THEN conjunct1, rule_format, OF s1]
  have h4: "length [0::nat] = 1 \<and>
      save_image toy_lib (os_path_join (known_faces_dir fu0) (''Bob'' @ ''.jpg'')) (to_uint8 toy_lib portrait)
        = Inr portrait \<and>
      cvtColor toy_lib portrait = Inr portrait \<and>
      face_encodings toy_lib (to_uint8 toy_lib portrait) None = Inr [0]"
    by (simp add: face_scenario_defs)
  note W = register_new_face_outcomes[OF h1 h2 h3, of "''Bob''",
             THEN conjunct2, THEN conjunct2, THEN conjunct1, rule_format, OF h4]
  have h5: "length (known_face_encodings fu0) = length (known_face_names fu0) \<and>
      (\<forall>k \<in> set (known_face_encodings fu0). \<not> face_distance toy_lib k 0 \<le> binary64 (6 / 10)) \<and>
      face_distance toy_lib 0 0 \<le> binary64 (6 / 10)"
    by (simp add: fu0_def toy_lib_def tolerance_value)
  have k2: "cvtColor lossy_lib portrait = Inr portrait" by (simp add: face_scenario_defs)
  have k3: "face_locations lossy_lib (to_uint8 lossy_lib portrait) = Inr [0]"
    by (simp add: face_scenario_defs)
  have k4: "length [0::nat] = 1 \<and>
      save_image lossy_lib (os_path_join (known_faces_dir fu0) (''Bob'' @ ''.jpg'')) (to_uint8 lossy_lib portrait)
        = Inr (portrait\<lparr>pixels := 0\<rparr>) \<and>
      cvtColor lossy_lib (portrait\<lparr>pixels := 0\<rparr>) = Inr (portrait\<lparr>pixels := 0\<rparr>) \<and>
      face_encodings lossy_lib (to_uint8 lossy_lib (portrait\<lparr>pixels := 0\<rparr>)) None = Inr []"
    by (simp add: face_scenario_defs)
  note V = register_new_face_outcomes[OF h1 k2 k3, of "''Bob''",
             THEN conjunct2, THEN conjunct2, THEN conjunct2, THEN conjunct1, rule_format, OF k4]
  have v: "\<not> snd (register_new_face lossy_lib fu0 ''upload.jpg'' ''Bob'')" using V by simp
  note U = register_new_face_outcomes[OF h1 k2 k3, of "''Bob''",
             THEN conjunct2, THEN conjunct2, THEN conjunct2, THEN conjunct2, rule_format, OF v]
  from G S W[THEN conjunct1] W[THEN conjunct2, rule_format, OF h5] V U g1 g2 g3 h1 h2 h3 h4 s1 k3 k4
  show ?thesis by (simp add: face_scenario_defs)
qed

subsection \<open>Failure of detection in a frame\<close>

text \<open>
  Claim C8, as amended. \<open>process_frame\<close> raises \<open>ValueError\<close> for a frame that is
  \<open>None\<close> and for a frame that is not a three-channel array of three dimensions. For a
  well-shaped frame that was downscaled and converted, a failure of face detection or
  of face encoding does not reach the caller: the result is the frame, converted to
  \<open>uint8\<close> when it was not, with an empty list of labels; a \<open>uint8\<close> frame is returned
  as it came.
\<close>

theorem process_frame_detection_failure:
  "process_frame L fu None = Inl (ValueError ''Frame is None'') \<and>
   (ndim frame \<noteq> 3 \<or> shape frame ! 2 \<noteq> 3
      \<longrightarrow> process_frame L fu (Some frame) = Inl (ValueError ''Invalid frame format'')) \<and>
   (\<forall>small_frame rgb_small_frame.
      ndim frame = 3 \<and> shape frame ! 2 = 3 \<and>
      resize_quarter L (to_uint8 L frame) = Inr small_frame \<and>
      cvtColor L small_frame = Inr rgb_small_frame \<and>
      ((\<exists>e. face_locations L rgb_small_frame = Inl e) \<or>
       (\<exists>locations e. face_locations L rgb_small_frame = Inr locations \<and>
            face_encodings L rgb_small_frame (Some locations) = Inl e))
      \<longrightarrow> process_frame L fu (Some frame) = Inr (to_uint8 L frame, []) \<and>
          (dtype frame = uint8 \<longrightarrow> process_frame L fu (Some frame) = Inr (frame, [])))"
proof (intro conjI allI impI)
  show "process_frame L fu None = Inl (ValueError ''Frame is None'')"
    by (simp add: process_frame_def)
next
  assume "ndim frame \<noteq> 3 \<or> shape frame ! 2 \<noteq> 3"
  then show "process_frame L fu (Some frame) = Inl (ValueError ''Invalid frame format'')"
    by (simp add: process_frame_def)
next
  fix small_frame rgb_small_frame
  assume a: "ndim frame = 3 \<and> shape frame ! 2 = 3 \<and>
      resize_quarter L (to_uint8 L frame) = Inr small_frame \<and>
      cvtColor L small_frame = Inr rgb_small_frame \<and>
      ((\<exists>e. face_locations L rgb_small_frame = Inl e) \<or>
       (\<exists>locations e. face_locations L rgb_small_frame = Inr locations \<and>
            face_encodings L rgb_small_frame (Some locations) = Inl e))"
  then show r: "process_frame L fu (Some frame) = Inr (to_uint8 L frame, [])"
    by (auto simp: process_frame_def Let_def)
  assume "dtype frame = uint8"
  with r show "process_frame L fu (Some frame) = Inr (frame, [])"
    by (simp add: to_uint8_def)
qed

text \<open>
  Claim C8, as stated, fails: with a detector that fails on every image, a grey-scale
  frame and a \<open>None\<close> frame make \<open>process_frame\<close> raise, and for a frame of floats the
  frame returned is the converted one, not the original.
\<close>

theorem process_frame_malformed_frame_raises:
  "face_locations failing_lib gray_frame = Inl (LibraryError ''face detection failed'') \<and>
   process_frame failing_lib fu0 (Some gray_frame) = Inl (ValueError ''Invalid frame format'') \<and>
   process_frame failing_lib fu0 None = Inl (ValueError ''Frame is None'') \<and>
   process_frame failing_lib fu0 (Some float_frame) = Inr (float_frame\<lparr>dtype := uint8\<rparr>, []) \<and>
   float_frame\<lparr>dtype := uint8\<rparr> \<noteq> float_frame"
  by (simp add: process_frame_def face_scenario_defs ndim_def Let_def)

text \<open>
  The amended claim C8 at concrete inputs: a grey-scale frame, and a colour frame on
  which detection fails.
\<close>

theorem process_frame_detection_failure_witness:
  "ndim gray_frame \<noteq> 3 \<and>
   process_frame failing_lib fu0 (Some gray_frame) = Inl (ValueError ''Invalid frame format'') \<and>
   ndim portrait = 3 \<and> shape portrait ! 2 = 3 \<and>
   resize_quarter failing_lib (to_uint8 failing_lib portrait) = Inr portrait \<and>
   cvtColor failing_lib portrait = Inr portrait \<and>
   face_locations failing_lib portrait = Inl (LibraryError ''face detection failed'') \<and>
   dtype portrait = uint8 \<and>
   process_frame failing_lib fu0 (Some portrait) = Inr (portrait, [])"
proof -
  have g: "ndim gray_frame \<noteq> 3 \<or> shape gray_frame ! 2 \<noteq> 3"
    by (simp add: gray_frame_def ndim_def)
  have h: "ndim portrait = 3 \<and> shape portrait ! 2 = 3 \<and>
      resize_quarter failing_lib (to_uint8 failing_lib portrait) = Inr portrait \<and>
      cvtColor failing_lib portrait = Inr portrait \<and>
      ((\<exists>e. face_locations failing_lib portrait = Inl e) \<or>
       (\<exists>locations e. face_locations failing_lib portrait = Inr locations \<and>
            face_encodings failing_lib portrait (Some locations) = Inl e))"
    by (simp add: face_scenario_defs ndim_def)
  have u: "dtype portrait = uint8" by (simp add: portrait_def)
  note W = process_frame_detection_failure[of failing_lib fu0]
  from W[of gray_frame, THEN conjunct2, THEN conjunct1, rule_format, OF g]
    W[of portrait, THEN conjunct2, THEN conjunct2, rule_format, OF h, THEN conjunct2, rule_format, OF u]
  show ?thesis
    by (simp add: face_scenario_defs ndim_def)
qed

section \<open>Properties of the liveness detector\<close>

lemma check_faces_append:
  "check_faces d res (faces @ [face]) now =
     check_face (fst (check_faces d res faces now)) face now"
  by (induction faces arbitrary: d res) (simp_all add: Let_def split: prod.splits)

lemma check_face_Inr_verdict:
  "check_face d (Inr ear) now = (d', res) \<Longrightarrow>
     (is_live res \<longleftrightarrow> 0 < total_blinks d' \<and> now - last_blink_time d' < 3) \<and>
     live_message res = (if is_live res then ''Live face detected'' else ''Please blink naturally'')"
  by (auto simp: check_face_def Let_def split: if_splits)

lemma check_face_Inl:
  "check_face d (Inl e) now =
     (d, \<lparr>is_live = False, live_message = ''Error in liveness detection: '' @ str_exception e\<rparr>)"
  by (simp add: check_face_def)

lemma detect_blink_no_blink:
  "total_blinks d = 0 \<Longrightarrow> counter d < 3 \<Longrightarrow>
     total_blinks (detect_blink d ear now) = 0 \<and> counter (detect_blink d ear now) \<le> counter d + 1"
  by (simp add: detect_blink_def EYE_AR_CONSEC_FRAMES_def Let_def)

lemma check_face_no_blink:
  assumes "total_blinks d = 0" and "counter d < 3"
  shows "total_blinks (fst (check_face d face now)) = 0
     \<and> counter (fst (check_face d face now)) \<le> counter d + 1
     \<and> \<not> is_live (snd (check_face d face now))"
proof (cases face)
  case (Inl e)
  with assms show ?thesis by (simp add: check_face_def)
next
  case (Inr ear)
  with detect_blink_no_blink[OF assms, of ear now] show ?thesis
    by (simp add: check_face_def Let_def)
qed

lemma check_faces_no_blink:
  "total_blinks d = 0 \<Longrightarrow> counter d + length faces \<le> 3 \<Longrightarrow> \<not> is_live res \<Longrightarrow>
     \<not> is_live (snd (check_faces d res faces now))"
proof (induction faces arbitrary: d res)
  case Nil
  then show ?case by simp
next
  case (Cons face faces)
  from Cons.prems have c: "counter d < 3" by simp
  obtain d1 res1 where s: "check_face d face now = (d1, res1)"
    by (cases "check_face d face now")
  from check_face_no_blink[OF Cons.prems(1) c, of face now] s
  have 1: "total_blinks d1 = 0" "counter d1 \<le> counter d + 1" "\<not> is_live res1" by simp_all
  from 1(2) Cons.prems(2) have 2: "counter d1 + length faces \<le> 3" by simp
  from Cons.IH[OF 1(1) 2 1(3)] s show ?case by simp
qed

text \<open>
  Claim C9, as amended. With no face detected the result is "No face detected", not
  live, and the counters are unchanged. When the landmark step of the last detected face
  succeeds, the verdict is live exactly when, after the blink update of this evaluation,
  the blink count is positive and the last blink is less than 3 seconds before the
  evaluation time; when that step fails the verdict is not live. The evaluation right
  after \<open>reset\<close> is not live, whatever was counted before, when the frame shows at most
  three faces.
\<close>

theorem liveness_verdict:
  "check_liveness d [] now = (d, \<lparr>is_live = False, live_message = ''No face detected''\<rparr>) \<and>
   (\<forall>faces ear d' res.
      check_liveness d (faces @ [Inr ear]) now = (d', res)
      \<longrightarrow> (is_live res \<longleftrightarrow> 0 < total_blinks d' \<and> now - last_blink_time d' < 3)) \<and>
   (\<forall>faces e. \<not> is_live (snd (check_liveness d (faces @ [Inl e]) now))) \<and>
   (\<forall>faces t0. length faces \<le> 3 \<longrightarrow> \<not> is_live (snd (check_liveness (reset d t0) faces now)))"
proof (intro conjI allI impI)
  show "check_liveness d [] now = (d, \<lparr>is_live = False, live_message = ''No face detected''\<rparr>)"
    by (simp add: check_liveness_def)
next
  fix faces ear d' res
  assume "check_liveness d (faces @ [Inr ear]) now = (d', res)"
  then have "check_face (fst (check_faces d \<lparr>is_live = False, live_message = ''No face detected''\<rparr> faces now))
               (Inr ear) now = (d', res)"
    by (simp add: check_liveness_def check_faces_append)
  from check_face_Inr_verdict[OF this]
  show "is_live res \<longleftrightarrow> 0 < total_blinks d' \<and> now - last_blink_time d' < 3" by simp
next
  fix faces e
  show "\<not> is_live (snd (check_liveness d (faces @ [Inl e]) now))"
    by (simp add: check_liveness_def check_faces_append check_face_Inl)
next
  fix faces :: "(py_exception + rat option) list" and t0
  assume "length faces \<le> 3"
  then show "\<not> is_live (snd (check_liveness (reset d t0) faces now))"
    unfolding check_liveness_def
    by (intro check_faces_no_blink) (simp_all add: reset_def)
qed

text \<open>
  Claim C9, as stated, fails: in the evaluation right after \<open>reset\<close>, a frame with four
  faces, three with closed eyes and then one with open eyes, registers a blink and is
  judged live.
\<close>

theorem live_right_after_reset_with_four_faces:
  "total_blinks (reset d0 100) = 0 \<and>
   check_liveness (reset d0 100)
       [Inr (Some (1 / 5)), Inr (Some (1 / 5)), Inr (Some (1 / 5)), Inr (Some (7 / 20))] 100 =
     (\<lparr>counter = 0, total_blinks = 1, last_blink_time = 100\<rparr>,
      \<lparr>is_live = True, live_message = ''Live face detected''\<rparr>)"
  by (simp add: check_liveness_def check_face_def detect_blink_def reset_def d0_def
        below_thresh_def thresh_value EYE_AR_CONSEC_FRAMES_def Let_def)

text \<open>
  The amended claim C9 at concrete inputs: a blink completed in this evaluation (live), a
  last blink ten seconds old (not live), and three faces right after \<open>reset\<close>.
\<close>

theorem liveness_verdict_witness:
  "check_liveness (d0\<lparr>counter := 3\<rparr>) ([Inr (Some (1 / 5))] @ [Inr (Some (7 / 20))]) 100 =
     (\<lparr>counter = 0, total_blinks = 6, last_blink_time = 100\<rparr>,
      \<lparr>is_live = True, live_message = ''Live face detected''\<rparr>) \<and>
   (True \<longleftrightarrow> (0::nat) < 6 \<and> (100::rat) - 100 < 3) \<and>
   check_liveness d0 ([] @ [Inr (Some (7 / 20))]) 100 =
     (\<lparr>counter = 0, total_blinks = 5, last_blink_time = 90\<rparr>,
      \<lparr>is_live = False, live_message = ''Please blink naturally''\<rparr>) \<and>
   \<not> (0 < total_blinks d0 \<and> (100::rat) - last_blink_time d0 < 3) \<and>
   length [Inr (Some (1 / 5)), Inr (Some (1 / 5)), Inr (Some (7 / 20)) :: py_exception + rat option] \<le> 3 \<and>
   \<not> is_live (snd (check_liveness (reset (d0\<lparr>last_blink_time := 99\<rparr>) 99)
                     [Inr (Some (1 / 5)), Inr (Some (1 / 5)), Inr (Some (7 / 20))] 100))"
proof -
  have r1: "check_liveness (d0\<lparr>counter := 3\<rparr>) ([Inr (Some (1 / 5))] @ [Inr (Some (7 / 20))]) 100 =
     (\<lparr>counter = 0, total_blinks = 6, last_blink_time = 100\<rparr>,
      \<lparr>is_live = True, live_message = ''Live face detected''\<rparr>)"
    by (simp add: check_liveness_def check_face_def detect_blink_def d0_def
        below_thresh_def thresh_value EYE_AR_CONSEC_FRAMES_def Let_def)
  have r2: "check_liveness d0 ([] @ [Inr (Some (7 / 20))]) 100 =
     (\<lparr>counter = 0, total_blinks = 5, last_blink_time = 90\<rparr>,
      \<lparr>is_live = False, live_message = ''Please blink naturally''\<rparr>)"
    by (simp add: check_liveness_def check_face_def detect_blink_def d0_def
        below_thresh_def thresh_value EYE_AR_CONSEC_FRAMES_def Let_def)
  have l: "length [Inr (Some (1 / 5)), Inr (Some (1 / 5)), Inr (Some (7 / 20)) :: py_exception + rat option] \<le> 3"
    by simp
  from liveness_verdict[of "d0\<lparr>counter := 3\<rparr>" 100, THEN conjunct2, THEN conjunct1, rule_format, OF r1]
    liveness_verdict[of d0 100, THEN conjunct2, THEN conjunct1, rule_format, OF r2]
    liveness_verdict[of "d0\<lparr>last_blink_time := 99\<rparr>" 100, THEN conjunct2, THEN conjunct2, THEN conjunct2,
       rule_format, OF l, of 99]
    r1 r2
  show ?thesis by (simp add: d0_def)
qed

end
